theory Spec2Isabelle
  imports Complex_Main
begin

section \<open>Shared UI utilities (the UI handler script)\<close>

text \<open>
  The browser hands a selected file to the scripts as a \<open>File\<close> object; the scripts read
  its \<open>name\<close>, its MIME \<open>type\<close> and its \<open>size\<close> in bytes (a non-negative integer).
\<close>

record file_obj =
  file_name :: string
  file_type :: string
  file_size :: nat

text \<open>
  The validators return \<open>{valid: false, error: ...}\<close> or \<open>{valid: true}\<close>; the absent
  \<open>error\<close> property of the second shape is \<open>None\<close>.
\<close>

record validation =
  valid :: bool
  error :: "string option"

text \<open>
  \<open>formatFileSize\<close> renders a byte count through floating-point logarithms and rounding.
  Only the text inside one error message depends on it, so the validators take the rendering
  as the parameter \<open>fmt\<close>; everything else of the validators is the source's control flow.
\<close>

definition validateImageFile :: "(nat \<Rightarrow> string) \<Rightarrow> file_obj \<Rightarrow> validation" where
  "validateImageFile fmt f =
     (let validTypes = [''image/jpeg'', ''image/png'', ''image/bmp'', ''image/gif'',
                        ''image/tiff'', ''image/webp''];
          maxSize = 50 * 1024 * 1024
      in if \<not> (file_type f \<in> set validTypes) then
           \<lparr>valid = False,
            error = Some ''Invalid file type. Please upload a JPG, PNG, BMP, GIF, TIFF, or WebP image.''\<rparr>
         else if file_size f > maxSize then
           \<lparr>valid = False,
            error = Some (''File size exceeds 50MB limit. Your file is '' @ fmt (file_size f) @ ''.'')\<rparr>
         else \<lparr>valid = True, error = None\<rparr>)"

definition validateVideoFile :: "(nat \<Rightarrow> string) \<Rightarrow> file_obj \<Rightarrow> validation" where
  "validateVideoFile fmt f =
     (let validTypes = [''video/mp4'', ''video/avi'', ''video/quicktime'', ''video/x-matroska'',
                        ''video/webm'', ''video/x-flv'', ''video/x-ms-wmv''];
          maxSize = 500 * 1024 * 1024
      in if \<not> (file_type f \<in> set validTypes) then
           \<lparr>valid = False,
            error = Some ''Invalid file type. Please upload an MP4, AVI, MOV, MKV, WebM, FLV, or WMV video.''\<rparr>
         else if file_size f > maxSize then
           \<lparr>valid = False,
            error = Some (''File size exceeds 500MB limit. Your file is '' @ fmt (file_size f) @ ''.'')\<rparr>
         else \<lparr>valid = True, error = None\<rparr>)"

text \<open>Decimal rendering of a non-negative integer, as a template literal prints it.\<close>

fun dec :: "nat \<Rightarrow> string" where
  "dec n = (if n < 10 then [''0123456789'' ! n]
            else dec (n div 10) @ [''0123456789'' ! (n mod 10)])"

declare dec.simps [simp del]

section \<open>The rock-paper-scissors game\<close>

record score =
  wins :: int
  losses :: int
  ties :: int

text \<open>
  \<open>Math.random()\<close> returns a double in the interval from 0 (inclusive) to 1 (exclusive);
  the model takes the returned number as the argument \<open>randomNumber\<close>. Doubles are
  compared as the real numbers they denote, and the source's bounds \<open>1 / 3\<close> and
  \<open>2 / 3\<close> are the doubles nearest to one third and two thirds, written out exactly.
\<close>

definition one_third :: real where
  "one_third = 6004799503160661 / 18014398509481984"

definition two_thirds :: real where
  "two_thirds = 6004799503160661 / 9007199254740992"

definition pickComputerMove :: "real \<Rightarrow> string" where
  "pickComputerMove randomNumber =
     (if randomNumber \<ge> 0 \<and> randomNumber < one_third then ''Rock''
      else if randomNumber \<ge> one_third \<and> randomNumber < two_thirds then ''Paper''
      else if randomNumber \<ge> two_thirds \<and> randomNumber < 1 then ''Scissors''
      else '''')"

text \<open>
  \<open>playGame\<close> draws the computer's move, decides the result text, and bumps one counter
  of the global \<open>score\<close>. It returns the result text shown on the page and the new score.
\<close>

definition playGame :: "real \<Rightarrow> string \<Rightarrow> score \<Rightarrow> string \<times> score" where
  "playGame randomNumber playerMove sc =
     (let computerMove = pickComputerMove randomNumber;
          result =
            (if playerMove = ''Scissors'' then
               (if computerMove = ''Rock'' then ''Perdiste''
                else if computerMove = ''Paper'' then ''Ganaste''
                else if computerMove = ''Scissors'' then ''Empate''
                else '''')
             else if playerMove = ''Paper'' then
               (if computerMove = ''Rock'' then ''Ganaste''
                else if computerMove = ''Paper'' then ''Empate''
                else if computerMove = ''Scissors'' then ''Perdiste''
                else '''')
             else if playerMove = ''Rock'' then
               (if computerMove = ''Rock'' then ''Empate''
                else if computerMove = ''Paper'' then ''Perdiste''
                else if computerMove = ''Scissors'' then ''Ganaste''
                else '''')
             else '''')
      in (result,
          if result = ''Ganaste'' then sc\<lparr>wins := wins sc + 1\<rparr>
          else if result = ''Perdiste'' then sc\<lparr>losses := losses sc + 1\<rparr>
          else if result = ''Empate'' then sc\<lparr>ties := ties sc + 1\<rparr>
          else sc))"


section \<open>Browser timers\<close>

text \<open>
  \<open>setInterval\<close> registers a repeating callback and returns its handle, an integer greater
  than zero that the browser never hands out twice on a page; \<open>clearInterval\<close> removes the
  entry with the given handle and does nothing for any other argument (\<open>null\<close> included).
  The table lists the active intervals: handle, callback, period in milliseconds. The
  one-shot timeouts with which \<open>showToast\<close> removes a toast draw their handles from the same
  pool; no script keeps or clears such a handle, and none equals an interval's handle, so the
  table leaves them out and numbers the intervals consecutively where a browser leaves gaps.
\<close>

type_synonym timer_id = nat

datatype callback = CheckVideoStatus | PopulationGrowth | LoadCryptocurrencyRates

record timers =
  live :: "(timer_id \<times> callback \<times> nat) list"
  next_id :: timer_id

definition setInterval :: "callback \<Rightarrow> nat \<Rightarrow> timers \<Rightarrow> timer_id \<times> timers" where
  "setInterval cb ms tm =
     (next_id tm, \<lparr>live = live tm @ [(next_id tm, cb, ms)], next_id = Suc (next_id tm)\<rparr>)"

definition clearInterval :: "timer_id option \<Rightarrow> timers \<Rightarrow> timers" where
  "clearInterval h tm =
     (case h of
        None \<Rightarrow> tm
      | Some t \<Rightarrow> tm\<lparr>live := filter (\<lambda>e. fst e \<noteq> t) (live tm)\<rparr>)"

text \<open>JavaScript truthiness of a variable that holds \<open>null\<close> or a timer handle.\<close>

definition truthy_handle :: "timer_id option \<Rightarrow> bool" where
  "truthy_handle h = (case h of None \<Rightarrow> False | Some t \<Rightarrow> t \<noteq> 0)"

text \<open>What the browser guarantees of its timer table.\<close>

definition timers_ok :: "timers \<Rightarrow> bool" where
  "timers_ok tm \<longleftrightarrow>
     0 < next_id tm
     \<and> (\<forall>e \<in> set (live tm). 0 < fst e \<and> fst e < next_id tm)
     \<and> distinct (map fst (live tm))"

section \<open>The country explorer page\<close>

text \<open>
  \<open>countriesData\<close> is a global of another script; the model takes it as a parameter. Of a
  country's entry, control flow reads the name and the population. Populations are doubles in
  the source and real numbers here; no statement below depends on their values.
\<close>

record country_entry =
  country :: string
  capital :: string
  population :: real

record explorer =
  populationInterval :: "timer_id option"
  currentPopulation :: real
  explorer_timers :: timers

definition ANNUAL_GROWTH_RATE :: real where
  "ANNUAL_GROWTH_RATE = 105 / 10000"

definition GROWTH_PER_SECOND :: real where
  "GROWTH_PER_SECOND = ANNUAL_GROWTH_RATE / ((36525 / 100) * 24 * 60 * 60)"

text \<open>
  The page's state changes only through the timer table, \<open>populationInterval\<close> and
  \<open>currentPopulation\<close>; writes to the document and the requests for flags, maps and
  exchange rates touch none of the three and are left out.
\<close>

definition startPopulationCounter :: "real \<Rightarrow> explorer \<Rightarrow> explorer" where
  "startPopulationCounter initialPopulation s =
     (let tm1 = (if truthy_handle (populationInterval s)
                 then clearInterval (populationInterval s) (explorer_timers s)
                 else explorer_timers s);
          (t, tm2) = setInterval PopulationGrowth 1000 tm1
      in s\<lparr>currentPopulation := initialPopulation,
            populationInterval := Some t,
            explorer_timers := tm2\<rparr>)"

definition selectCountry :: "country_entry list \<Rightarrow> string \<Rightarrow> explorer \<Rightarrow> explorer" where
  "selectCountry countriesData countryName s =
     (case find (\<lambda>c. country c = countryName) countriesData of
        None \<Rightarrow> s
      | Some c \<Rightarrow> startPopulationCounter (population c) s)"

text \<open>The \<open>DOMContentLoaded\<close> handler registers the exchange-rate refresh every 60 seconds.\<close>

definition explorer_loaded :: "explorer \<Rightarrow> explorer" where
  "explorer_loaded s =
     s\<lparr>explorer_timers := snd (setInterval LoadCryptocurrencyRates 60000 (explorer_timers s))\<rparr>"

text \<open>The callback of the population interval, run once per elapsed period.\<close>

definition population_tick :: "explorer \<Rightarrow> explorer" where
  "population_tick s =
     s\<lparr>currentPopulation := currentPopulation s + currentPopulation s * GROWTH_PER_SECOND\<rparr>"

definition explorer_beforeunload :: "explorer \<Rightarrow> explorer" where
  "explorer_beforeunload s =
     (if truthy_handle (populationInterval s)
      then s\<lparr>explorer_timers := clearInterval (populationInterval s) (explorer_timers s)\<rparr>
      else s)"

text \<open>
  What can happen on the page, one event per run of a handler. An interval that is not in
  the timer table cannot fire.
\<close>

datatype explorer_event =
    PageLoaded
  | CountrySelected string
  | IntervalElapsed timer_id
  | PageUnloading

definition explorer_step :: "country_entry list \<Rightarrow> explorer_event \<Rightarrow> explorer \<Rightarrow> explorer" where
  "explorer_step countriesData ev s =
     (case ev of
        PageLoaded \<Rightarrow> explorer_loaded s
      | CountrySelected n \<Rightarrow> selectCountry countriesData n s
      | IntervalElapsed t \<Rightarrow>
          (case map_of (live (explorer_timers s)) t of
             Some (PopulationGrowth, ms) \<Rightarrow> population_tick s
           | _ \<Rightarrow> s)
      | PageUnloading \<Rightarrow> explorer_beforeunload s)"

fun explorer_run :: "country_entry list \<Rightarrow> explorer_event list \<Rightarrow> explorer \<Rightarrow> explorer" where
  "explorer_run countriesData [] s = s"
| "explorer_run countriesData (ev # evs) s =
     explorer_run countriesData evs (explorer_step countriesData ev s)"

text \<open>The script's globals as declared, on a page whose timer table is still empty.\<close>

definition explorer_start :: "timer_id \<Rightarrow> explorer" where
  "explorer_start n =
     \<lparr>populationInterval = None, currentPopulation = 0,
      explorer_timers = \<lparr>live = [], next_id = n\<rparr>\<rparr>"

definition population_timers :: "explorer \<Rightarrow> (timer_id \<times> callback \<times> nat) list" where
  "population_timers s =
     filter (\<lambda>e. fst (snd e) = PopulationGrowth) (live (explorer_timers s))"

text \<open>
  The invariant of the page: the timer table is well formed and every active population
  interval is the one whose handle \<open>populationInterval\<close> holds.
\<close>

definition explorer_inv :: "explorer \<Rightarrow> bool" where
  "explorer_inv s \<longleftrightarrow>
     timers_ok (explorer_timers s)
     \<and> (\<forall>e \<in> set (population_timers s). populationInterval s = Some (fst e))"


section \<open>Effects, errors and replies of the editor pages\<close>

text \<open>
  What a handler of the photo or video editor does to the outside world, in the order it does
  it: toasts, console logging, the local read for the preview, the upload, the requests to the
  API, timer calls, and the click on a generated download link. Of the document, the pages'
  records keep the flags that hide a section holding a button and the flags that disable a
  button. What the scripts write for display only (names, sizes, progress and status lines,
  the preview's source, styling classes, the visibility of groups of inputs) is never read
  back by them and is not modelled.
\<close>

datatype jval =
    JNull
  | JBool bool
  | JNum int
  | JReal real
  | JStr string
  | JObj "(string \<times> jval) list"

datatype effect =
    ShowToast string string nat
  | ConsoleError string string
  | ReadAsDataURL file_obj
  | UploadRequest string file_obj
  | FetchRequest string string "(string \<times> jval) list"
  | SetIntervalCall callback nat timer_id
  | ClearIntervalCall "timer_id option"
  | DownloadClick string string

definition API_BASE_URL :: string where
  "API_BASE_URL = ''https://localhost:5000''"

text \<open>\<open>showToast(message, type = 'info', duration = 5000)\<close>; call sites pass the defaults.\<close>

definition showToast :: "string \<Rightarrow> string \<Rightarrow> nat \<Rightarrow> effect list" where
  "showToast message kind duration = [ShowToast message kind duration]"

text \<open>An \<open>Error\<close> object, with its message.\<close>

datatype js_error = JsError string

text \<open>
  \<open>handleError\<close>: for an \<open>Error\<close> object the toast shows its message when that is not
  empty (an \<open>Error\<close> has no \<open>error\<close> property and is not a string), otherwise the default.
\<close>

definition handleError :: "js_error \<Rightarrow> string \<Rightarrow> effect list" where
  "handleError err ctx =
     (case err of JsError message \<Rightarrow>
        ConsoleError (''Error during '' @ ctx @ '':'') message #
        showToast (if message \<noteq> [] then message
                   else ''Failed to '' @ ctx @ ''. Please try again.'') ''error'' 5000)"

text \<open>
  A JSON object sent by the remote service, with the properties the scripts read; a
  property the object does not have is \<open>None\<close>.
\<close>

record response =
  r_upload_id :: "string option"
  r_job_id :: "string option"
  r_status :: "string option"
  r_progress :: "nat option"
  r_error :: "string option"
  r_resolution :: "(nat \<times> nat) option"
  r_dimensions :: "(nat \<times> nat) option"
  r_duration :: "nat option"
  r_size :: "nat option"

text \<open>\<open>a || b\<close> for a string property and a string default; truthiness of such a property.\<close>

definition js_or :: "string option \<Rightarrow> string \<Rightarrow> string" where
  "js_or a b = (case a of None \<Rightarrow> b | Some s \<Rightarrow> if s \<noteq> [] then s else b)"

definition truthy_string :: "string option \<Rightarrow> bool" where
  "truthy_string a = (case a of None \<Rightarrow> False | Some s \<Rightarrow> s \<noteq> [])"

text \<open>
  How a \<open>fetch\<close> issued by \<open>apiRequest\<close> can end: the promise rejects; the response is not
  ok (status code, and the body when it parses as JSON); the response is ok with a JSON
  content type and the body parses, or its parsing rejects; the response is ok with another
  content type, in which case \<open>apiRequest\<close> returns the \<open>Response\<close> object itself.
\<close>

datatype http_reply =
    FetchRejected string
  | HttpNotOk nat "response option"
  | HttpJson response
  | HttpJsonBroken string
  | HttpOther nat

datatype api_value = Body response | ResponseObject nat

text \<open>\<open>apiRequest\<close>, first half: the request goes out as soon as the function is called.\<close>

definition apiRequest :: "string \<Rightarrow> string \<Rightarrow> (string \<times> jval) list \<Rightarrow> effect list" where
  "apiRequest endpoint method body = [FetchRequest endpoint method body]"

text \<open>
  \<open>apiRequest\<close>, second half: what the awaiting caller gets. Every failure is logged by
  \<open>apiRequest\<close> itself and thrown again.
\<close>

definition apiRequest_settle :: "http_reply \<Rightarrow> effect list \<times> (js_error + api_value)" where
  "apiRequest_settle reply =
     (case reply of
        FetchRejected m \<Rightarrow> ([ConsoleError ''API request failed:'' m], Inl (JsError m))
      | HttpNotOk code body \<Rightarrow>
          (let m = js_or (case body of None \<Rightarrow> None | Some r \<Rightarrow> r_error r)
                         (''HTTP error! status: '' @ dec code)
           in ([ConsoleError ''API request failed:'' m], Inl (JsError m)))
      | HttpJson r \<Rightarrow> ([], Inr (Body r))
      | HttpJsonBroken m \<Rightarrow> ([ConsoleError ''API request failed:'' m], Inl (JsError m))
      | HttpOther code \<Rightarrow> ([], Inr (ResponseObject code)))"

text \<open>
  Property reads on what \<open>apiRequest\<close> returned. A \<open>Response\<close> object has none of
  \<open>job_id\<close> and \<open>error\<close>, and its \<open>status\<close> is a number, which is never strictly equal to
  a string.
\<close>

definition get_job_id :: "api_value \<Rightarrow> string option" where
  "get_job_id v = (case v of Body r \<Rightarrow> r_job_id r | ResponseObject code \<Rightarrow> None)"

definition get_status :: "api_value \<Rightarrow> string option" where
  "get_status v = (case v of Body r \<Rightarrow> r_status r | ResponseObject code \<Rightarrow> None)"

definition get_error :: "api_value \<Rightarrow> string option" where
  "get_error v = (case v of Body r \<Rightarrow> r_error r | ResponseObject code \<Rightarrow> None)"

text \<open>How the upload's \<open>XMLHttpRequest\<close> can end, and the promise of \<open>uploadFile\<close> with it.\<close>

datatype xhr_outcome = XhrLoad nat "response option" | XhrError | XhrAbort

definition uploadFile :: "string \<Rightarrow> file_obj \<Rightarrow> effect list" where
  "uploadFile endpoint f = [UploadRequest endpoint f]"

definition uploadFile_settle :: "xhr_outcome \<Rightarrow> js_error + response" where
  "uploadFile_settle x =
     (case x of
        XhrLoad code body \<Rightarrow>
          (if code \<ge> 200 \<and> code < 300 then
             (case body of
                Some r \<Rightarrow> Inr r
              | None \<Rightarrow> Inl (JsError ''Invalid JSON response''))
           else
             (case body of
                Some r \<Rightarrow> Inl (JsError (js_or (r_error r) (''Upload failed with status '' @ dec code)))
              | None \<Rightarrow> Inl (JsError (''Upload failed with status '' @ dec code))))
      | XhrError \<Rightarrow> Inl (JsError ''Network error during upload'')
      | XhrAbort \<Rightarrow> Inl (JsError ''Upload aborted''))"

text \<open>
  The message of the \<open>TypeError\<close> that reading a property of \<open>undefined\<close> throws; its
  wording is the engine's, and only that it is not empty matters.
\<close>

definition type_error_message :: string where
  "type_error_message = ''Cannot read properties of undefined''"


section \<open>The video editor page\<close>

record video_metadata =
  md_duration :: "nat option"
  md_width :: nat
  md_height :: nat
  md_size :: "nat option"

text \<open>
  The fields of \<open>videoState\<close>, then the flags of \<open>videoElements\<close> that hide a section or
  disable a button, then the page's timer table. The resolution buttons are taken to carry
  their \<open>data-resolution\<close> attribute, so \<open>selectedResolution\<close> is always a string.
\<close>

record video_page =
  uploadId :: "string option"
  jobId :: "string option"
  originalFile :: "file_obj option"
  metadata :: "video_metadata option"
  currentOperation :: string
  selectedResolution :: string
  quality :: string
  resizeMethod :: string
  statusPollInterval :: "timer_id option"
  previewContainer_hidden :: bool
  dropzone_display :: string
  upscaleOptions_hidden :: bool
  resizeOptions_hidden :: bool
  upscaleBtn_disabled :: bool
  resizeBtn_disabled :: bool
  processingSection_hidden :: bool
  downloadSection_hidden :: bool
  video_timers :: timers

text \<open>
  The page's markup is not among the sources, so the flags with which the document starts
  are a parameter of the start state.
\<close>

record video_markup =
  mk_previewContainer_hidden :: bool
  mk_dropzone_display :: string
  mk_upscaleOptions_hidden :: bool
  mk_resizeOptions_hidden :: bool
  mk_upscaleBtn_disabled :: bool
  mk_resizeBtn_disabled :: bool
  mk_processingSection_hidden :: bool
  mk_downloadSection_hidden :: bool

text \<open>
  \<open>videoState\<close> as the script declares it, the flags as the markup \<open>mk\<close> gives them, and
  an empty timer table whose next handle is \<open>n\<close>.
\<close>

definition video_start :: "video_markup \<Rightarrow> timer_id \<Rightarrow> video_page" where
  "video_start mk n =
     \<lparr>uploadId = None, jobId = None, originalFile = None, metadata = None,
      currentOperation = ''upscale'', selectedResolution = ''1080p'', quality = ''high'',
      resizeMethod = ''filesize'', statusPollInterval = None,
      previewContainer_hidden = mk_previewContainer_hidden mk,
      dropzone_display = mk_dropzone_display mk,
      upscaleOptions_hidden = mk_upscaleOptions_hidden mk,
      resizeOptions_hidden = mk_resizeOptions_hidden mk,
      upscaleBtn_disabled = mk_upscaleBtn_disabled mk,
      resizeBtn_disabled = mk_resizeBtn_disabled mk,
      processingSection_hidden = mk_processingSection_hidden mk,
      downloadSection_hidden = mk_downloadSection_hidden mk,
      video_timers = \<lparr>live = [], next_id = n\<rparr>\<rparr>"

text \<open>A string property inside a JSON body and inside a template literal.\<close>

definition json_string :: "string option \<Rightarrow> jval" where
  "json_string a = (case a of None \<Rightarrow> JNull | Some s \<Rightarrow> JStr s)"

definition template_text :: "string option \<Rightarrow> string" where
  "template_text a = (case a of None \<Rightarrow> ''null'' | Some s \<Rightarrow> s)"

definition resetVideoEditor :: "video_page \<Rightarrow> effect list \<times> video_page" where
  "resetVideoEditor p =
     (let p1 = p\<lparr>uploadId := None, jobId := None, originalFile := None, metadata := None\<rparr>;
          (e, p2) =
            (if truthy_handle (statusPollInterval p1) then
               ([ClearIntervalCall (statusPollInterval p1)],
                p1\<lparr>video_timers := clearInterval (statusPollInterval p1) (video_timers p1),
                   statusPollInterval := None\<rparr>)
             else ([], p1))
      in (e, p2\<lparr>previewContainer_hidden := True, dropzone_display := ''block'',
                upscaleBtn_disabled := True, resizeBtn_disabled := True,
                processingSection_hidden := True, downloadSection_hidden := True\<rparr>))"

text \<open>\<open>handleVideoFile\<close> up to its \<open>await\<close>: validation, the local preview read, the upload.\<close>

definition handleVideoFile :: "(nat \<Rightarrow> string) \<Rightarrow> file_obj \<Rightarrow> video_page \<Rightarrow> effect list \<times> video_page" where
  "handleVideoFile fmt f p =
     (let validation = validateVideoFile fmt f
      in if \<not> valid validation then
           (showToast (case error validation of Some m \<Rightarrow> m | None \<Rightarrow> ''undefined'')
              ''error'' 5000, p)
         else
           (ReadAsDataURL f # showToast ''Uploading video...'' ''info'' 3000
              @ uploadFile ''/api/video/upload'' f,
            p\<lparr>originalFile := Some f\<rparr>))"

text \<open>
  \<open>handleVideoFile\<close> after its \<open>await\<close>. Reading \<open>response.resolution.width\<close> throws when
  the reply has no \<open>resolution\<close>; the \<open>catch\<close> then treats it like a failed upload.
\<close>

definition handleVideoFile_uploaded :: "xhr_outcome \<Rightarrow> video_page \<Rightarrow> effect list \<times> video_page" where
  "handleVideoFile_uploaded x p =
     (case uploadFile_settle x of
        Inr resp \<Rightarrow>
          (let p1 = p\<lparr>uploadId := r_upload_id resp\<rparr>
           in case r_resolution resp of
                None \<Rightarrow>
                  (let (e, p2) = resetVideoEditor p1
                   in (handleError (JsError type_error_message) ''upload video'' @ e, p2))
              | Some (w, h) \<Rightarrow>
                  (showToast ''Video uploaded successfully!'' ''success'' 5000,
                   p1\<lparr>metadata := Some \<lparr>md_duration = r_duration resp, md_width = w,
                                          md_height = h, md_size = r_size resp\<rparr>,
                      upscaleBtn_disabled := False, resizeBtn_disabled := False\<rparr>))
      | Inl err \<Rightarrow>
          (let (e, p2) = resetVideoEditor p
           in (handleError err ''upload video'' @ e, p2)))"

text \<open>\<open>checkVideoStatus\<close> up to its \<open>await\<close>: nothing without a job, else one status request.\<close>

definition checkVideoStatus :: "video_page \<Rightarrow> effect list \<times> video_page" where
  "checkVideoStatus p =
     (if \<not> truthy_string (jobId p) then ([], p)
      else (apiRequest (''/api/video/status/'' @ template_text (jobId p)) ''GET'' [], p))"

definition startStatusPolling :: "video_page \<Rightarrow> effect list \<times> video_page" where
  "startStatusPolling p =
     (let (e1, tm1) =
            (if truthy_handle (statusPollInterval p) then
               ([ClearIntervalCall (statusPollInterval p)],
                clearInterval (statusPollInterval p) (video_timers p))
             else ([], video_timers p));
          (t, tm2) = setInterval CheckVideoStatus 2000 tm1;
          (e3, p3) = checkVideoStatus (p\<lparr>video_timers := tm2, statusPollInterval := Some t\<rparr>)
      in (e1 @ [SetIntervalCall CheckVideoStatus 2000 t] @ e3, p3))"

text \<open>\<open>checkVideoStatus\<close> after its \<open>await\<close>.\<close>

definition checkVideoStatus_replied :: "http_reply \<Rightarrow> video_page \<Rightarrow> effect list \<times> video_page" where
  "checkVideoStatus_replied reply p =
     (let (e0, res) = apiRequest_settle reply
      in case res of
           Inl err \<Rightarrow>
             (case err of JsError m \<Rightarrow>
                (e0 @ [ConsoleError ''Error checking video status:'' m], p))
         | Inr v \<Rightarrow>
             (let st = get_status v
              in if st = Some ''processing'' then (e0, p)
                 else if st = Some ''completed'' then
                   (e0 @ [ClearIntervalCall (statusPollInterval p)]
                       @ showToast ''Video processed successfully!'' ''success'' 5000,
                    p\<lparr>video_timers := clearInterval (statusPollInterval p) (video_timers p),
                      statusPollInterval := None,
                      processingSection_hidden := True, downloadSection_hidden := False,
                      upscaleBtn_disabled := False, resizeBtn_disabled := False\<rparr>)
                 else if st = Some ''failed'' then
                   (e0 @ [ClearIntervalCall (statusPollInterval p)]
                       @ showToast (js_or (get_error v) ''Video processing failed'') ''error'' 5000,
                    p\<lparr>video_timers := clearInterval (statusPollInterval p) (video_timers p),
                      statusPollInterval := None,
                      processingSection_hidden := True,
                      upscaleBtn_disabled := False, resizeBtn_disabled := False\<rparr>)
                 else (e0, p)))"

text \<open>\<open>upscaleVideo\<close> up to its \<open>await\<close>, and after it.\<close>

definition upscaleVideo :: "video_page \<Rightarrow> effect list \<times> video_page" where
  "upscaleVideo p =
     (if \<not> truthy_string (uploadId p) then
        (showToast ''Please upload a video first'' ''error'' 5000, p)
      else
        (apiRequest ''/api/video/upscale'' ''POST''
           [(''upload_id'', json_string (uploadId p)),
            (''resolution'', JStr (selectedResolution p)),
            (''quality'', JStr (quality p))],
         p\<lparr>processingSection_hidden := False, downloadSection_hidden := True,
           upscaleBtn_disabled := True\<rparr>))"

definition upscaleVideo_replied :: "http_reply \<Rightarrow> video_page \<Rightarrow> effect list \<times> video_page" where
  "upscaleVideo_replied reply p =
     (let (e0, res) = apiRequest_settle reply
      in case res of
           Inr v \<Rightarrow>
             (let (e1, p1) = startStatusPolling (p\<lparr>jobId := get_job_id v\<rparr>)
              in (e0 @ e1 @ showToast ''Video upscaling started'' ''info'' 5000, p1))
         | Inl err \<Rightarrow>
             (e0 @ handleError err ''upscale video'',
              p\<lparr>processingSection_hidden := True, upscaleBtn_disabled := False\<rparr>))"

text \<open>
  \<open>resizeVideo\<close> reads three inputs of the form when it runs: the target size, the width and
  the height, each the result of \<open>parseInt\<close> (\<open>None\<close> for \<open>NaN\<close>), and the aspect checkbox.
  \<open>JSON.stringify\<close> writes \<open>NaN\<close> as \<open>null\<close>.
\<close>

definition int_or :: "int option \<Rightarrow> int \<Rightarrow> int" where
  "int_or a b = (case a of None \<Rightarrow> b | Some i \<Rightarrow> if i \<noteq> 0 then i else b)"

definition resizeVideo ::
  "int option \<Rightarrow> int option \<Rightarrow> int option \<Rightarrow> bool \<Rightarrow> video_page \<Rightarrow> effect list \<times> video_page" where
  "resizeVideo target_mb width_in height_in maintain p =
     (if \<not> truthy_string (uploadId p) then
        (showToast ''Please upload a video first'' ''error'' 5000, p)
      else
        (let payload =
               [(''upload_id'', json_string (uploadId p)),
                (''resize_type'', JStr (resizeMethod p))]
               @ (if resizeMethod p = ''filesize'' then
                    [(''target_mb'', (case target_mb of None \<Rightarrow> JNull | Some i \<Rightarrow> JNum i))]
                  else if resizeMethod p = ''dimensions'' then
                    [(''width'', JNum (int_or width_in 1280)),
                     (''height'', JNum (int_or height_in 720)),
                     (''maintain_aspect'', JBool maintain),
                     (''quality'', JStr ''medium'')]
                  else [])
         in (apiRequest ''/api/video/resize'' ''POST'' payload,
             p\<lparr>processingSection_hidden := False, downloadSection_hidden := True,
               resizeBtn_disabled := True\<rparr>)))"

definition resizeVideo_replied :: "http_reply \<Rightarrow> video_page \<Rightarrow> effect list \<times> video_page" where
  "resizeVideo_replied reply p =
     (let (e0, res) = apiRequest_settle reply
      in case res of
           Inr v \<Rightarrow>
             (let (e1, p1) = startStatusPolling (p\<lparr>jobId := get_job_id v\<rparr>)
              in (e0 @ e1 @ showToast ''Video resizing started'' ''info'' 5000, p1))
         | Inl err \<Rightarrow>
             (e0 @ handleError err ''resize video'',
              p\<lparr>processingSection_hidden := True, resizeBtn_disabled := False\<rparr>))"

text \<open>\<open>downloadVideo\<close>; \<open>now\<close> is what \<open>Date.now()\<close> returns.\<close>

definition downloadVideo :: "nat \<Rightarrow> video_page \<Rightarrow> effect list \<times> video_page" where
  "downloadVideo now p =
     (if \<not> truthy_string (jobId p) then
        (showToast ''No processed video available'' ''error'' 5000, p)
      else
        (DownloadClick (API_BASE_URL @ ''/api/video/download/'' @ template_text (jobId p))
                       (''processed_video_'' @ dec now @ ''.mp4'')
           # showToast ''Download started!'' ''success'' 5000,
         p))"

definition video_beforeunload :: "video_page \<Rightarrow> effect list \<times> video_page" where
  "video_beforeunload p =
     (if truthy_handle (statusPollInterval p) then
        ([ClearIntervalCall (statusPollInterval p)],
         p\<lparr>video_timers := clearInterval (statusPollInterval p) (video_timers p)\<rparr>)
      else ([], p))"

text \<open>
  One event per run of a handler or of the rest of an \<open>async\<close> function after its
  \<open>await\<close>. Replies may arrive in any order and at any time, which covers every real
  interleaving. An interval that is not in the timer table cannot fire. \<open>StatusReplied\<close>
  names the job handle in the address of the status request that the reply answers; the rest
  of \<open>checkVideoStatus\<close> has no variable that holds it and never looks at it.
\<close>

datatype video_event =
    FileChosen file_obj
  | PreviewRead
  | UploadSettled xhr_outcome
  | RemoveClicked
  | TabUpscaleClicked
  | TabResizeClicked
  | ResolutionClicked string
  | QualityChanged string
  | ResizeMethodChanged string
  | UpscaleClicked
  | UpscaleReplied http_reply
  | ResizeClicked "int option" "int option" "int option" bool
  | ResizeReplied http_reply
  | TimerFired timer_id
  | StatusReplied string http_reply
  | DownloadClicked nat
  | BeforeUnload

definition video_step ::
  "(nat \<Rightarrow> string) \<Rightarrow> video_event \<Rightarrow> video_page \<Rightarrow> effect list \<times> video_page" where
  "video_step fmt ev p =
     (case ev of
        FileChosen f \<Rightarrow> handleVideoFile fmt f p
      | PreviewRead \<Rightarrow> ([], p\<lparr>previewContainer_hidden := False, dropzone_display := ''none''\<rparr>)
      | UploadSettled x \<Rightarrow> handleVideoFile_uploaded x p
      | RemoveClicked \<Rightarrow> resetVideoEditor p
      | TabUpscaleClicked \<Rightarrow>
          ([], p\<lparr>currentOperation := ''upscale'',
                 upscaleOptions_hidden := False, resizeOptions_hidden := True\<rparr>)
      | TabResizeClicked \<Rightarrow>
          ([], p\<lparr>currentOperation := ''resize'',
                 resizeOptions_hidden := False, upscaleOptions_hidden := True\<rparr>)
      | ResolutionClicked r \<Rightarrow> ([], p\<lparr>selectedResolution := r\<rparr>)
      | QualityChanged q \<Rightarrow> ([], p\<lparr>quality := q\<rparr>)
      | ResizeMethodChanged m \<Rightarrow> ([], p\<lparr>resizeMethod := m\<rparr>)
      | UpscaleClicked \<Rightarrow> upscaleVideo p
      | UpscaleReplied reply \<Rightarrow> upscaleVideo_replied reply p
      | ResizeClicked t w h m \<Rightarrow> resizeVideo t w h m p
      | ResizeReplied reply \<Rightarrow> resizeVideo_replied reply p
      | TimerFired t \<Rightarrow>
          (case map_of (live (video_timers p)) t of
             Some (CheckVideoStatus, ms) \<Rightarrow> checkVideoStatus p
           | _ \<Rightarrow> ([], p))
      | StatusReplied job reply \<Rightarrow> checkVideoStatus_replied reply p
      | DownloadClicked now \<Rightarrow> downloadVideo now p
      | BeforeUnload \<Rightarrow> video_beforeunload p)"

fun video_run ::
  "(nat \<Rightarrow> string) \<Rightarrow> video_event list \<Rightarrow> video_page \<Rightarrow> effect list \<times> video_page" where
  "video_run fmt [] p = ([], p)"
| "video_run fmt (ev # evs) p =
     (let (e1, p1) = video_step fmt ev p;
          (e2, p2) = video_run fmt evs p1
      in (e1 @ e2, p2))"

text \<open>
  The invariant of the page: the timer table is well formed and every active interval is the
  one whose handle \<open>statusPollInterval\<close> holds.
\<close>

definition video_inv :: "video_page \<Rightarrow> bool" where
  "video_inv p \<longleftrightarrow>
     timers_ok (video_timers p)
     \<and> (\<forall>e \<in> set (live (video_timers p)). statusPollInterval p = Some (fst e))"

text \<open>Classifying effects and events.\<close>

fun is_network :: "effect \<Rightarrow> bool" where
  "is_network (UploadRequest endpoint f) = True"
| "is_network (FetchRequest endpoint method body) = True"
| "is_network other = False"

fun is_toast :: "effect \<Rightarrow> bool" where
  "is_toast (ShowToast message kind duration) = True"
| "is_toast other = False"

fun is_status_request :: "effect \<Rightarrow> bool" where
  "is_status_request (FetchRequest endpoint method body) =
     (take 18 endpoint = ''/api/video/status/'')"
| "is_status_request other = False"

fun is_download :: "effect \<Rightarrow> bool" where
  "is_download (DownloadClick href name) = True"
| "is_download other = False"

fun is_timer_call :: "effect \<Rightarrow> bool" where
  "is_timer_call (SetIntervalCall cb ms t) = True"
| "is_timer_call (ClearIntervalCall h) = True"
| "is_timer_call other = False"


section \<open>The photo editor page\<close>

text \<open>
  \<open>photoState.currentEffects\<close>; the four levels are the doubles \<open>parseFloat\<close> reads from the
  sliders, passed on unchanged, and real numbers here.
\<close>

record photo_effects =
  filter_name :: string
  brightness :: real
  contrast :: real
  color :: real
  sharpness :: real

text \<open>
  The fields of \<open>photoState\<close>, then the flags of \<open>photoElements\<close> that hide a section or
  disable a button. The script has no timer and no status request.
\<close>

record photo_page =
  photo_uploadId :: "string option"
  photo_jobId :: "string option"
  photo_originalFile :: "file_obj option"
  currentEffects :: photo_effects
  photo_previewContainer_hidden :: bool
  photo_dropzone_display :: string
  processBtn_disabled :: bool
  photo_processingSection_hidden :: bool
  photo_downloadSection_hidden :: bool

definition default_effects :: photo_effects where
  "default_effects =
     \<lparr>filter_name = '''', brightness = 1, contrast = 1, color = 1, sharpness = 1\<rparr>"

text \<open>The flags with which the photo editor's document starts, again a parameter.\<close>

record photo_markup =
  mk_photo_previewContainer_hidden :: bool
  mk_photo_dropzone_display :: string
  mk_processBtn_disabled :: bool
  mk_photo_processingSection_hidden :: bool
  mk_photo_downloadSection_hidden :: bool

definition photo_start :: "photo_markup \<Rightarrow> photo_page" where
  "photo_start mk =
     \<lparr>photo_uploadId = None, photo_jobId = None, photo_originalFile = None,
      currentEffects = default_effects,
      photo_previewContainer_hidden = mk_photo_previewContainer_hidden mk,
      photo_dropzone_display = mk_photo_dropzone_display mk,
      processBtn_disabled = mk_processBtn_disabled mk,
      photo_processingSection_hidden = mk_photo_processingSection_hidden mk,
      photo_downloadSection_hidden = mk_photo_downloadSection_hidden mk\<rparr>"

definition resetEffects :: "photo_page \<Rightarrow> effect list \<times> photo_page" where
  "resetEffects q =
     (showToast ''Effects reset to default'' ''info'' 2000,
      q\<lparr>currentEffects := default_effects\<rparr>)"

definition resetPhotoEditor :: "photo_page \<Rightarrow> effect list \<times> photo_page" where
  "resetPhotoEditor q =
     (let q1 = q\<lparr>photo_uploadId := None, photo_jobId := None, photo_originalFile := None,
                  photo_previewContainer_hidden := True, photo_dropzone_display := ''block''\<rparr>;
          (e, q2) = resetEffects q1
      in (e, q2\<lparr>processBtn_disabled := True,
                photo_processingSection_hidden := True,
                photo_downloadSection_hidden := True\<rparr>))"

text \<open>\<open>handlePhotoFile\<close> up to its \<open>await\<close>, and after it.\<close>

definition handlePhotoFile :: "(nat \<Rightarrow> string) \<Rightarrow> file_obj \<Rightarrow> photo_page \<Rightarrow> effect list \<times> photo_page" where
  "handlePhotoFile fmt f q =
     (let validation = validateImageFile fmt f
      in if \<not> valid validation then
           (showToast (case error validation of Some m \<Rightarrow> m | None \<Rightarrow> ''undefined'')
              ''error'' 5000, q)
         else
           (ReadAsDataURL f # showToast ''Uploading photo...'' ''info'' 3000
              @ uploadFile ''/api/photo/upload'' f,
            q\<lparr>photo_originalFile := Some f\<rparr>))"

definition handlePhotoFile_uploaded :: "xhr_outcome \<Rightarrow> photo_page \<Rightarrow> effect list \<times> photo_page" where
  "handlePhotoFile_uploaded x q =
     (case uploadFile_settle x of
        Inr resp \<Rightarrow>
          (let q1 = q\<lparr>photo_uploadId := r_upload_id resp\<rparr>
           in case r_dimensions resp of
                None \<Rightarrow>
                  (let (e, q2) = resetPhotoEditor q1
                   in (handleError (JsError type_error_message) ''upload photo'' @ e, q2))
              | Some (w, h) \<Rightarrow>
                  (showToast ''Photo uploaded successfully!'' ''success'' 5000,
                   q1\<lparr>processBtn_disabled := False\<rparr>))
      | Inl err \<Rightarrow>
          (let (e, q2) = resetPhotoEditor q
           in (handleError err ''upload photo'' @ e, q2)))"

text \<open>\<open>processPhoto\<close> up to its \<open>await\<close>, and after it.\<close>

definition processPhoto :: "photo_page \<Rightarrow> effect list \<times> photo_page" where
  "processPhoto q =
     (if \<not> truthy_string (photo_uploadId q) then
        (showToast ''Please upload a photo first'' ''error'' 5000, q)
      else
        (let fx = currentEffects q;
             effects =
               JObj [(''filter'', (if filter_name fx \<noteq> [] then JStr (filter_name fx) else JNull)),
                     (''brightness'', JReal (brightness fx)),
                     (''contrast'', JReal (contrast fx)),
                     (''color'', JReal (color fx)),
                     (''sharpness'', JReal (sharpness fx))]
         in (apiRequest ''/api/photo/process'' ''POST''
               [(''upload_id'', json_string (photo_uploadId q)), (''effects'', effects)],
             q\<lparr>photo_processingSection_hidden := False,
               photo_downloadSection_hidden := True,
               processBtn_disabled := True\<rparr>)))"

definition processPhoto_replied :: "http_reply \<Rightarrow> photo_page \<Rightarrow> effect list \<times> photo_page" where
  "processPhoto_replied reply q =
     (let (e0, res) = apiRequest_settle reply
      in case res of
           Inr v \<Rightarrow>
             (e0 @ showToast ''Photo processed successfully!'' ''success'' 5000,
              q\<lparr>photo_jobId := get_job_id v,
                photo_processingSection_hidden := True,
                photo_downloadSection_hidden := False,
                processBtn_disabled := False\<rparr>)
         | Inl err \<Rightarrow>
             (e0 @ handleError err ''process photo'',
              q\<lparr>photo_processingSection_hidden := True, processBtn_disabled := False\<rparr>))"

definition downloadPhoto :: "nat \<Rightarrow> photo_page \<Rightarrow> effect list \<times> photo_page" where
  "downloadPhoto now q =
     (if \<not> truthy_string (photo_jobId q) then
        (showToast ''No processed photo available'' ''error'' 5000, q)
      else
        (DownloadClick (API_BASE_URL @ ''/api/photo/download/'' @ template_text (photo_jobId q))
                       (''edited_photo_'' @ dec now @ ''.jpg'')
           # showToast ''Download started!'' ''success'' 5000,
         q))"

datatype photo_event =
    PhotoChosen file_obj
  | PhotoPreviewRead
  | PhotoUploadSettled xhr_outcome
  | PhotoRemoveClicked
  | FilterChanged string
  | BrightnessInput real
  | ContrastInput real
  | ColorInput real
  | SharpnessInput real
  | ResetEffectsClicked
  | ProcessClicked
  | ProcessReplied http_reply
  | PhotoDownloadClicked nat

definition photo_step ::
  "(nat \<Rightarrow> string) \<Rightarrow> photo_event \<Rightarrow> photo_page \<Rightarrow> effect list \<times> photo_page" where
  "photo_step fmt ev q =
     (case ev of
        PhotoChosen f \<Rightarrow> handlePhotoFile fmt f q
      | PhotoPreviewRead \<Rightarrow>
          ([], q\<lparr>photo_previewContainer_hidden := False, photo_dropzone_display := ''none''\<rparr>)
      | PhotoUploadSettled x \<Rightarrow> handlePhotoFile_uploaded x q
      | PhotoRemoveClicked \<Rightarrow> resetPhotoEditor q
      | FilterChanged v \<Rightarrow> ([], q\<lparr>currentEffects := (currentEffects q)\<lparr>filter_name := v\<rparr>\<rparr>)
      | BrightnessInput v \<Rightarrow> ([], q\<lparr>currentEffects := (currentEffects q)\<lparr>brightness := v\<rparr>\<rparr>)
      | ContrastInput v \<Rightarrow> ([], q\<lparr>currentEffects := (currentEffects q)\<lparr>contrast := v\<rparr>\<rparr>)
      | ColorInput v \<Rightarrow> ([], q\<lparr>currentEffects := (currentEffects q)\<lparr>color := v\<rparr>\<rparr>)
      | SharpnessInput v \<Rightarrow> ([], q\<lparr>currentEffects := (currentEffects q)\<lparr>sharpness := v\<rparr>\<rparr>)
      | ResetEffectsClicked \<Rightarrow> resetEffects q
      | ProcessClicked \<Rightarrow> processPhoto q
      | ProcessReplied reply \<Rightarrow> processPhoto_replied reply q
      | PhotoDownloadClicked now \<Rightarrow> downloadPhoto now q)"

fun photo_run ::
  "(nat \<Rightarrow> string) \<Rightarrow> photo_event list \<Rightarrow> photo_page \<Rightarrow> effect list \<times> photo_page" where
  "photo_run fmt [] q = ([], q)"
| "photo_run fmt (ev # evs) q =
     (let (e1, q1) = photo_step fmt ev q;
          (e2, q2) = photo_run fmt evs q1
      in (e1 @ e2, q2))"

section \<open>Notions the statements use\<close>

text \<open>A reply to a status request that reports a terminal status.\<close>

definition terminal_reply :: "http_reply \<Rightarrow> bool" where
  "terminal_reply reply =
     (case reply of
        HttpJson r \<Rightarrow> r_status r = Some ''completed'' \<or> r_status r = Some ''failed''
      | _ \<Rightarrow> False)"

text \<open>An upload whose continuation runs \<open>resetVideoEditor\<close>.\<close>

definition upload_fails :: "xhr_outcome \<Rightarrow> bool" where
  "upload_fails x =
     (case uploadFile_settle x of Inl err \<Rightarrow> True | Inr resp \<Rightarrow> r_resolution resp = None)"

text \<open>The reply to a submission (upscale or resize).\<close>

fun is_submission_reply :: "video_event \<Rightarrow> bool" where
  "is_submission_reply (UpscaleReplied reply) = True"
| "is_submission_reply (ResizeReplied reply) = True"
| "is_submission_reply other = False"

text \<open>
  The events that can take the polling interval out of the timer table: a terminal status,
  a reset (the remove button, or a failed upload), the unload handler, and the reply to a
  new submission, which replaces the interval.
\<close>

fun may_stop_polling :: "video_event \<Rightarrow> bool" where
  "may_stop_polling (StatusReplied job reply) = terminal_reply reply"
| "may_stop_polling RemoveClicked = True"
| "may_stop_polling (UploadSettled x) = upload_fails x"
| "may_stop_polling BeforeUnload = True"
| "may_stop_polling (UpscaleReplied reply) = True"
| "may_stop_polling (ResizeReplied reply) = True"
| "may_stop_polling other = False"



text \<open>The reply to \<open>processPhoto\<close>'s request on which \<open>apiRequest\<close> returns normally.\<close>

fun is_process_success :: "photo_event \<Rightarrow> bool" where
  "is_process_success (ProcessReplied reply) =
     (case snd (apiRequest_settle reply) of Inr v \<Rightarrow> True | Inl err \<Rightarrow> False)"
| "is_process_success other = False"

text \<open>A reply to a status request that reports the status completed.\<close>

fun is_completed_reply :: "video_event \<Rightarrow> bool" where
  "is_completed_reply (StatusReplied job reply) =
     (case reply of HttpJson r \<Rightarrow> r_status r = Some ''completed'' | _ \<Rightarrow> False)"
| "is_completed_reply other = False"


text \<open>The job handle that an accepted submission's reply carries.\<close>

fun submitted_jobs :: "video_event \<Rightarrow> string option list" where
  "submitted_jobs (UpscaleReplied reply) =
     (case snd (apiRequest_settle reply) of Inr v \<Rightarrow> [get_job_id v] | Inl err \<Rightarrow> [])"
| "submitted_jobs (ResizeReplied reply) =
     (case snd (apiRequest_settle reply) of Inr v \<Rightarrow> [get_job_id v] | Inl err \<Rightarrow> [])"
| "submitted_jobs other = []"


section \<open>Example sessions\<close>

text \<open>Concrete inputs and states on which the theorems below are instantiated.\<close>

definition example_fmt :: "nat \<Rightarrow> string" where
  "example_fmt n = dec n @ '' Bytes''"

definition example_video :: file_obj where
  "example_video = \<lparr>file_name = ''clip.mp4'', file_type = ''video/mp4'', file_size = 10485760\<rparr>"

definition example_photo :: file_obj where
  "example_photo = \<lparr>file_name = ''cat.png'', file_type = ''image/png'', file_size = 10485760\<rparr>"

definition example_text :: file_obj where
  "example_text = \<lparr>file_name = ''notes.txt'', file_type = ''text/plain'', file_size = 12\<rparr>"

text \<open>A markup in which nothing is shown or enabled before a file is chosen.\<close>

definition example_video_markup :: video_markup where
  "example_video_markup =
     \<lparr>mk_previewContainer_hidden = True, mk_dropzone_display = ''block'',
      mk_upscaleOptions_hidden = False, mk_resizeOptions_hidden = True,
      mk_upscaleBtn_disabled = True, mk_resizeBtn_disabled = True,
      mk_processingSection_hidden = True, mk_downloadSection_hidden = True\<rparr>"

definition example_photo_markup :: photo_markup where
  "example_photo_markup =
     \<lparr>mk_photo_previewContainer_hidden = True, mk_photo_dropzone_display = ''block'',
      mk_processBtn_disabled = True,
      mk_photo_processingSection_hidden = True, mk_photo_downloadSection_hidden = True\<rparr>"

definition empty_response :: response where
  "empty_response =
     \<lparr>r_upload_id = None, r_job_id = None, r_status = None, r_progress = None,
      r_error = None, r_resolution = None, r_dimensions = None, r_duration = None,
      r_size = None\<rparr>"

text \<open>
  The video editor after an upload and an accepted upscale submission: job \<open>J1\<close> is being
  polled by interval 1, and no reply to a status request has arrived yet.
\<close>

definition example_polling :: video_page where
  "example_polling =
     snd (video_run example_fmt
            [FileChosen example_video,
             UploadSettled (XhrLoad 200
               (Some (empty_response\<lparr>r_upload_id := Some ''U1'', r_resolution := Some (1280, 720)\<rparr>))),
             UpscaleClicked,
             UpscaleReplied (HttpJson (empty_response\<lparr>r_job_id := Some ''J1''\<rparr>))]
            (video_start example_video_markup 1))"

text \<open>The photo editor after an upload.\<close>

definition example_uploaded :: photo_page where
  "example_uploaded =
     snd (photo_run example_fmt
            [PhotoChosen example_photo,
             PhotoUploadSettled (XhrLoad 200
               (Some (empty_response\<lparr>r_upload_id := Some ''U7'', r_dimensions := Some (800, 600)\<rparr>)))]
            (photo_start example_photo_markup))"


section \<open>Theorems\<close>

text \<open>
  C8. The file-acceptance policy is exact and its size limits are inclusive: an image is
  valid exactly when its type is one of the six listed image types and its size is at most
  50 * 1024 * 1024 bytes; a video is valid exactly when its type is one of the seven listed
  video types and its size is at most 500 * 1024 * 1024 bytes. A file of exactly the maximum
  size is accepted.
\<close>

theorem validate_policy_exact:
  "(valid (validateImageFile fmt f) \<longleftrightarrow>
      file_type f \<in> {''image/jpeg'', ''image/png'', ''image/bmp'', ''image/gif'',
                     ''image/tiff'', ''image/webp''}
      \<and> file_size f \<le> 50 * 1024 * 1024)
   \<and> (valid (validateVideoFile fmt g) \<longleftrightarrow>
      file_type g \<in> {''video/mp4'', ''video/avi'', ''video/quicktime'', ''video/x-matroska'',
                     ''video/webm'', ''video/x-flv'', ''video/x-ms-wmv''}
      \<and> file_size g \<le> 500 * 1024 * 1024)"
  by (simp add: validateImageFile_def validateVideoFile_def Let_def not_less)

theorem validate_policy_exact_witness:
  "valid (validateImageFile (\<lambda>n. ''50 MB'')
            \<lparr>file_name = ''a.png'', file_type = ''image/png'', file_size = 52428800\<rparr>)
   \<and> \<not> valid (validateImageFile (\<lambda>n. ''50 MB'')
            \<lparr>file_name = ''a.png'', file_type = ''image/png'', file_size = 52428801\<rparr>)
   \<and> valid (validateVideoFile (\<lambda>n. ''50 MB'')
            \<lparr>file_name = ''b.mp4'', file_type = ''video/mp4'', file_size = 524288000\<rparr>)
   \<and> \<not> valid (validateVideoFile (\<lambda>n. ''50 MB'')
            \<lparr>file_name = ''b.mp3'', file_type = ''audio/mpeg'', file_size = 10\<rparr>)"
  using validate_policy_exact [of "\<lambda>n. ''50 MB''"
      "\<lparr>file_name = ''a.png'', file_type = ''image/png'', file_size = 52428800\<rparr>"
      "\<lparr>file_name = ''b.mp4'', file_type = ''video/mp4'', file_size = 524288000\<rparr>"]
    validate_policy_exact [of "\<lambda>n. ''50 MB''"
      "\<lparr>file_name = ''a.png'', file_type = ''image/png'', file_size = 52428801\<rparr>"
      "\<lparr>file_name = ''b.mp3'', file_type = ''audio/mpeg'', file_size = 10\<rparr>"]
  by simp

lemma pickComputerMove_in_range:
  "0 \<le> r \<Longrightarrow> r < 1 \<Longrightarrow> pickComputerMove r \<in> {''Rock'', ''Paper'', ''Scissors''}"
  by (simp add: pickComputerMove_def one_third_def two_thirds_def)

lemma pickComputerMove_attains:
  "pickComputerMove 0 = ''Rock'' \<and> pickComputerMove (1 / 2) = ''Paper''
   \<and> pickComputerMove (9 / 10) = ''Scissors''"
  by (simp add: pickComputerMove_def one_third_def two_thirds_def)

text \<open>
  C9. For every player move and computer move among Rock, Paper and Scissors, one call of
  \<open>playGame\<close> increments exactly one of wins, losses and ties by exactly one (so their sum
  grows by one); wins is the incremented counter exactly for the pairs (Rock, Scissors),
  (Paper, Rock) and (Scissors, Paper), and ties exactly when the two moves are equal.
\<close>

theorem playGame_one_counter:
  assumes "playerMove \<in> {''Rock'', ''Paper'', ''Scissors''}"
    and "pickComputerMove r = computerMove"
    and "computerMove \<in> {''Rock'', ''Paper'', ''Scissors''}"
  shows "((wins (snd (playGame r playerMove sc)) = wins sc + 1
           \<and> losses (snd (playGame r playerMove sc)) = losses sc
           \<and> ties (snd (playGame r playerMove sc)) = ties sc)
        \<or> (wins (snd (playGame r playerMove sc)) = wins sc
           \<and> losses (snd (playGame r playerMove sc)) = losses sc + 1
           \<and> ties (snd (playGame r playerMove sc)) = ties sc)
        \<or> (wins (snd (playGame r playerMove sc)) = wins sc
           \<and> losses (snd (playGame r playerMove sc)) = losses sc
           \<and> ties (snd (playGame r playerMove sc)) = ties sc + 1))
     \<and> wins (snd (playGame r playerMove sc)) + losses (snd (playGame r playerMove sc))
         + ties (snd (playGame r playerMove sc)) = wins sc + losses sc + ties sc + 1
     \<and> (wins (snd (playGame r playerMove sc)) = wins sc + 1 \<longleftrightarrow>
          (playerMove, computerMove) \<in>
            {(''Rock'', ''Scissors''), (''Paper'', ''Rock''), (''Scissors'', ''Paper'')})
     \<and> (ties (snd (playGame r playerMove sc)) = ties sc + 1 \<longleftrightarrow> playerMove = computerMove)"
  using assms by (auto simp add: playGame_def Let_def)

theorem playGame_one_counter_witness:
  "snd (playGame (1 / 2) ''Rock'' \<lparr>wins = 4, losses = 2, ties = 1\<rparr>)
     = \<lparr>wins = 4, losses = 3, ties = 1\<rparr>
   \<and> wins (snd (playGame (9 / 10) ''Rock'' \<lparr>wins = 4, losses = 2, ties = 1\<rparr>)) = 5"
  using playGame_one_counter [of "''Rock''" "1 / 2" "''Paper''" "\<lparr>wins = 4, losses = 2, ties = 1\<rparr>"]
    playGame_one_counter [of "''Rock''" "9 / 10" "''Scissors''" "\<lparr>wins = 4, losses = 2, ties = 1\<rparr>"]
  by (simp add: pickComputerMove_def one_third_def two_thirds_def playGame_def)

lemma filter_at_most_one:
  "distinct (map fst xs) \<Longrightarrow> \<forall>e \<in> set (filter P xs). fst e = t \<Longrightarrow> length (filter P xs) \<le> Suc 0"
proof (induction xs)
  case Nil
  then show ?case by simp
next
  case (Cons x xs)
  show ?case
  proof (cases "P x")
    case True
    with Cons.prems have fx: "fst x = t" by simp
    have "filter P xs = []"
    proof (rule ccontr)
      assume "filter P xs \<noteq> []"
      then obtain y where y: "y \<in> set (filter P xs)" by (cases "filter P xs") auto
      with Cons.prems have "fst y = t" by simp
      moreover from y have "y \<in> set xs" by simp
      ultimately have "fst x \<in> fst ` set xs" using fx by force
      with Cons.prems(1) show False by simp
    qed
    with True show ?thesis by simp
  next
    case False
    with Cons show ?thesis by simp
  qed
qed

lemma timers_ok_setInterval:
  "timers_ok tm \<Longrightarrow> timers_ok (snd (setInterval cb ms tm))"
  by (auto simp add: timers_ok_def setInterval_def less_Suc_eq)

lemma timers_ok_clearInterval:
  "timers_ok tm \<Longrightarrow> timers_ok (clearInterval h tm)"
  by (auto simp add: timers_ok_def clearInterval_def distinct_map_filter split: option.splits)

lemma explorer_inv_start: "0 < n \<Longrightarrow> explorer_inv (explorer_start n)"
  by (simp add: explorer_inv_def explorer_start_def timers_ok_def population_timers_def)


lemma explorer_inv_pop:
  assumes "explorer_inv s" and "e \<in> set (live (explorer_timers s))"
    and "fst (snd e) = PopulationGrowth"
  shows "populationInterval s = Some (fst e) \<and> 0 < fst e"
  using assms unfolding explorer_inv_def population_timers_def timers_ok_def
  by (cases e) auto

lemma explorer_cleared_no_population:
  assumes "explorer_inv s"
  shows "filter (\<lambda>e. fst (snd e) = PopulationGrowth)
           (live (if truthy_handle (populationInterval s)
                  then clearInterval (populationInterval s) (explorer_timers s)
                  else explorer_timers s)) = []"
proof (cases "truthy_handle (populationInterval s)")
  case True
  then obtain t where t: "populationInterval s = Some t"
    by (auto simp add: truthy_handle_def split: option.splits)
  have "\<And>e. e \<in> set (live (explorer_timers s)) \<Longrightarrow> fst (snd e) = PopulationGrowth \<Longrightarrow> fst e = t"
    using explorer_inv_pop[OF assms] t by simp
  then show ?thesis using True t
    by (auto simp add: clearInterval_def filter_empty_conv)
next
  case False
  have "\<And>e. e \<in> set (live (explorer_timers s)) \<Longrightarrow> fst (snd e) = PopulationGrowth \<Longrightarrow> False"
  proof -
    fix e assume "e \<in> set (live (explorer_timers s))" "fst (snd e) = PopulationGrowth"
    from explorer_inv_pop[OF assms this] have "truthy_handle (populationInterval s)"
      by (simp add: truthy_handle_def)
    with False show False by simp
  qed
  then show ?thesis using False by (auto simp add: filter_empty_conv)
qed

lemma explorer_inv_startPopulationCounter:
  assumes "explorer_inv s"
  shows "explorer_inv (startPopulationCounter p s)"
proof -
  let ?tm1 = "if truthy_handle (populationInterval s)
                 then clearInterval (populationInterval s) (explorer_timers s)
                 else explorer_timers s"
  have ok1: "timers_ok ?tm1" using assms by (simp add: explorer_inv_def timers_ok_clearInterval)
  have nopop: "\<forall>e \<in> set (live ?tm1). fst (snd e) \<noteq> PopulationGrowth"
    using explorer_cleared_no_population[OF assms] by (simp add: filter_empty_conv)
  have eq: "startPopulationCounter p s =
     s\<lparr>currentPopulation := p, populationInterval := Some (next_id ?tm1),
       explorer_timers := snd (setInterval PopulationGrowth 1000 ?tm1)\<rparr>"
    by (simp add: startPopulationCounter_def Let_def setInterval_def)
  show ?thesis
    unfolding eq explorer_inv_def
    using timers_ok_setInterval[OF ok1, of PopulationGrowth 1000] nopop
    by (auto simp add: population_timers_def setInterval_def)
qed

lemma explorer_inv_step:
  "explorer_inv s \<Longrightarrow> explorer_inv (explorer_step cd ev s)"
proof (cases ev)
  case PageLoaded
  assume "explorer_inv s"
  then show ?thesis using PageLoaded timers_ok_setInterval[of "explorer_timers s" LoadCryptocurrencyRates 60000]
    by (auto simp add: explorer_step_def explorer_loaded_def explorer_inv_def population_timers_def setInterval_def)
next
  case (CountrySelected n)
  assume "explorer_inv s"
  then show ?thesis using CountrySelected
    by (simp add: explorer_step_def selectCountry_def explorer_inv_startPopulationCounter split: option.splits)
next
  case (IntervalElapsed t)
  assume "explorer_inv s"
  then show ?thesis using IntervalElapsed
    by (auto simp add: explorer_step_def population_tick_def explorer_inv_def population_timers_def
        split: option.splits callback.splits)
next
  case PageUnloading
  assume "explorer_inv s"
  then show ?thesis using PageUnloading timers_ok_clearInterval[of "explorer_timers s" "populationInterval s"]
    by (auto simp add: explorer_step_def explorer_beforeunload_def explorer_inv_def population_timers_def
        clearInterval_def split: option.splits)
qed

lemma explorer_inv_run:
  "explorer_inv s \<Longrightarrow> explorer_inv (explorer_run cd evs s)"
  by (induction evs arbitrary: s) (simp_all add: explorer_inv_step)

lemma explorer_inv_at_most_one:
  "explorer_inv s \<Longrightarrow> length (population_timers s) \<le> Suc 0"
proof -
  assume inv: "explorer_inv s"
  show ?thesis
  proof (cases "populationInterval s")
    case None
    with inv have "population_timers s = []"
      by (cases "population_timers s") (auto simp add: explorer_inv_def)
    then show ?thesis by simp
  next
    case (Some t)
    with inv have "\<forall>e \<in> set (filter (\<lambda>e. fst (snd e) = PopulationGrowth) (live (explorer_timers s))). fst e = t"
      by (auto simp add: explorer_inv_def population_timers_def)
    moreover from inv have "distinct (map fst (live (explorer_timers s)))"
      by (simp add: explorer_inv_def timers_ok_def)
    ultimately show ?thesis
      unfolding population_timers_def by (rule filter_at_most_one[rotated])
  qed
qed

lemma startPopulationCounter_replaces:
  assumes "explorer_inv s"
  shows "population_timers (startPopulationCounter p s)
           = [(next_id (explorer_timers s), PopulationGrowth, 1000)]"
proof -
  let ?tm1 = "if truthy_handle (populationInterval s)
                 then clearInterval (populationInterval s) (explorer_timers s)
                 else explorer_timers s"
  have nopop: "filter (\<lambda>e. fst (snd e) = PopulationGrowth) (live ?tm1) = []"
    using explorer_cleared_no_population[OF assms] .
  have nid: "next_id ?tm1 = next_id (explorer_timers s)"
    by (simp add: clearInterval_def split: option.splits)
  show ?thesis using nopop nid
    by (simp add: startPopulationCounter_def Let_def setInterval_def population_timers_def)
qed

lemma explorer_beforeunload_clears:
  assumes "explorer_inv s"
  shows "population_timers (explorer_beforeunload s) = []"
  using explorer_cleared_no_population[OF assms]
  by (auto simp add: population_timers_def explorer_beforeunload_def split: if_splits)

text \<open>
  C10. At most one population-counter interval is active at any time on the country
  explorer page: after any sequence of events the timer table holds zero or one population
  interval; a call of \<open>startPopulationCounter\<close> leaves exactly the interval it has just
  registered (an earlier one is cleared first); and the unload handler leaves none.
\<close>

theorem population_timer_at_most_one:
  assumes "0 < n"
  shows "length (population_timers (explorer_run cd evs (explorer_start n))) \<le> 1
     \<and> population_timers (startPopulationCounter p (explorer_run cd evs (explorer_start n)))
         = [(next_id (explorer_timers (explorer_run cd evs (explorer_start n))),
             PopulationGrowth, 1000)]
     \<and> population_timers (explorer_beforeunload (explorer_run cd evs (explorer_start n))) = []"
proof -
  have inv: "explorer_inv (explorer_run cd evs (explorer_start n))"
    using assms by (simp add: explorer_inv_start explorer_inv_run)
  show ?thesis
    using explorer_inv_at_most_one[OF inv] startPopulationCounter_replaces[OF inv]
      explorer_beforeunload_clears[OF inv]
    by simp
qed

theorem population_timer_at_most_one_witness:
  "population_timers
     (explorer_run
        [\<lparr>country = ''Peru'', capital = ''Lima'', population = 34000000\<rparr>,
         \<lparr>country = ''Chile'', capital = ''Santiago'', population = 19000000\<rparr>]
        [PageLoaded, CountrySelected ''Peru'', IntervalElapsed 2, CountrySelected ''Chile'',
         CountrySelected ''Atlantis'']
        (explorer_start 1))
     = [(3, PopulationGrowth, 1000)]
   \<and> population_timers
     (explorer_run
        [\<lparr>country = ''Peru'', capital = ''Lima'', population = 34000000\<rparr>,
         \<lparr>country = ''Chile'', capital = ''Santiago'', population = 19000000\<rparr>]
        [PageLoaded, CountrySelected ''Peru'', IntervalElapsed 2, CountrySelected ''Chile'',
         CountrySelected ''Atlantis'', PageUnloading]
        (explorer_start 1))
     = []"
  using population_timer_at_most_one [of 1
        "[\<lparr>country = ''Peru'', capital = ''Lima'', population = 34000000\<rparr>,
          \<lparr>country = ''Chile'', capital = ''Santiago'', population = 19000000\<rparr>]"
        "[PageLoaded, CountrySelected ''Peru'', IntervalElapsed 2, CountrySelected ''Chile'',
          CountrySelected ''Atlantis'']"]
  by (simp add: explorer_start_def explorer_step_def explorer_loaded_def selectCountry_def
      startPopulationCounter_def setInterval_def clearInterval_def truthy_handle_def
      population_tick_def explorer_beforeunload_def population_timers_def Let_def)

lemma video_inv_start: "0 < n \<Longrightarrow> video_inv (video_start mk n)"
  by (simp add: video_inv_def video_start_def timers_ok_def)

lemma video_inv_handle:
  assumes "video_inv p" and "e \<in> set (live (video_timers p))"
  shows "statusPollInterval p = Some (fst e) \<and> 0 < fst e"
  using assms unfolding video_inv_def timers_ok_def by auto

lemma video_inv_cleared:
  assumes "video_inv p"
  shows "live (clearInterval (statusPollInterval p) (video_timers p)) = []"
proof (cases "statusPollInterval p")
  case None
  have "live (video_timers p) = []"
  proof (cases "live (video_timers p)")
    case (Cons e es)
    then have "e \<in> set (live (video_timers p))" by simp
    from video_inv_handle[OF assms this] None show ?thesis by simp
  qed simp
  with None show ?thesis by (simp add: clearInterval_def)
next
  case (Some t)
  have "\<And>e. e \<in> set (live (video_timers p)) \<Longrightarrow> fst e = t"
    using video_inv_handle[OF assms] Some by simp
  with Some show ?thesis by (auto simp add: clearInterval_def filter_empty_conv)
qed

lemma video_inv_falsy:
  assumes "video_inv p" and "\<not> truthy_handle (statusPollInterval p)"
  shows "live (video_timers p) = []"
proof (cases "live (video_timers p)")
  case (Cons e es)
  then have "e \<in> set (live (video_timers p))" by simp
  from video_inv_handle[OF assms(1) this] assms(2) show ?thesis
    by (simp add: truthy_handle_def)
qed simp

lemma video_inv_truthy:
  assumes "video_inv p" and "e \<in> set (live (video_timers p))"
  shows "truthy_handle (statusPollInterval p)"
  using video_inv_handle[OF assms] by (simp add: truthy_handle_def)

lemma next_id_clearInterval [simp]: "next_id (clearInterval h tm) = next_id tm"
  by (simp add: clearInterval_def split: option.splits)

lemma video_inv_at_most_one:
  assumes "video_inv p"
  shows "length (live (video_timers p)) \<le> Suc 0"
proof (cases "statusPollInterval p")
  case None
  with video_inv_falsy[OF assms] show ?thesis by (simp add: truthy_handle_def)
next
  case (Some t)
  have "\<forall>e \<in> set (filter (\<lambda>e. True) (live (video_timers p))). fst e = t"
    using video_inv_handle[OF assms] Some by simp
  moreover have "distinct (map fst (live (video_timers p)))"
    using assms by (simp add: video_inv_def timers_ok_def)
  ultimately have "length (filter (\<lambda>e. True) (live (video_timers p))) \<le> Suc 0"
    by (rule filter_at_most_one[rotated])
  then show ?thesis by simp
qed

text \<open>What each handler does to the timer table and to the stored handle.\<close>

lemma video_inv_cong:
  "video_timers p' = video_timers p \<Longrightarrow> statusPollInterval p' = statusPollInterval p
   \<Longrightarrow> video_inv p \<Longrightarrow> video_inv p'"
  by (simp add: video_inv_def)

lemma video_inv_empty:
  "live (video_timers p') = [] \<Longrightarrow> 0 < next_id (video_timers p') \<Longrightarrow> video_inv p'"
  by (simp add: video_inv_def timers_ok_def)

lemma checkVideoStatus_state [simp]: "snd (checkVideoStatus p) = p"
  by (simp add: checkVideoStatus_def)

lemma startStatusPolling_state:
  assumes "video_inv p"
  shows "snd (startStatusPolling p) =
           p\<lparr>video_timers := \<lparr>live = [(next_id (video_timers p), CheckVideoStatus, 2000)],
                               next_id = Suc (next_id (video_timers p))\<rparr>,
             statusPollInterval := Some (next_id (video_timers p))\<rparr>"
proof (cases "truthy_handle (statusPollInterval p)")
  case True
  with video_inv_cleared[OF assms] show ?thesis
    by (simp add: startStatusPolling_def setInterval_def Let_def split_beta)
next
  case False
  with video_inv_falsy[OF assms False] show ?thesis
    by (simp add: startStatusPolling_def setInterval_def Let_def split_beta)
qed

lemma startStatusPolling_effects:
  "fst (startStatusPolling p) =
     (if truthy_handle (statusPollInterval p) then [ClearIntervalCall (statusPollInterval p)] else [])
     @ SetIntervalCall CheckVideoStatus 2000 (next_id (video_timers p))
     # fst (checkVideoStatus p)"
  by (simp add: startStatusPolling_def setInterval_def Let_def split_beta checkVideoStatus_def)

lemma video_inv_startStatusPolling:
  assumes "video_inv p"
  shows "video_inv (snd (startStatusPolling p))"
  using assms unfolding startStatusPolling_state[OF assms]
  by (simp add: video_inv_def timers_ok_def)

lemma resetVideoEditor_timers:
  assumes "video_inv p"
  shows "live (video_timers (snd (resetVideoEditor p))) = []
       \<and> next_id (video_timers (snd (resetVideoEditor p))) = next_id (video_timers p)"
proof (cases "truthy_handle (statusPollInterval p)")
  case True
  with video_inv_cleared[OF assms] show ?thesis
    by (simp add: resetVideoEditor_def Let_def split_beta)
next
  case False
  with video_inv_falsy[OF assms False] show ?thesis
    by (simp add: resetVideoEditor_def Let_def split_beta)
qed

lemma video_inv_pos: "video_inv p \<Longrightarrow> 0 < next_id (video_timers p)"
  by (simp add: video_inv_def timers_ok_def)

lemma video_inv_resetVideoEditor:
  assumes "video_inv p"
  shows "video_inv (snd (resetVideoEditor p))"
  using resetVideoEditor_timers[OF assms] video_inv_pos[OF assms]
  by (simp add: video_inv_empty)

lemma checkVideoStatus_replied_keeps:
  assumes "\<not> terminal_reply reply"
  shows "snd (checkVideoStatus_replied reply p) = p"
  using assms
  by (cases reply)
     (auto simp add: checkVideoStatus_replied_def apiRequest_settle_def terminal_reply_def
        get_status_def Let_def split: js_error.splits)

lemma checkVideoStatus_replied_terminal:
  assumes "terminal_reply reply"
  shows "video_timers (snd (checkVideoStatus_replied reply p))
           = clearInterval (statusPollInterval p) (video_timers p)
       \<and> statusPollInterval (snd (checkVideoStatus_replied reply p)) = None"
  using assms
  by (cases reply)
     (auto simp add: checkVideoStatus_replied_def apiRequest_settle_def terminal_reply_def
        get_status_def Let_def)

lemma handleVideoFile_uploaded_keeps:
  assumes "\<not> upload_fails x"
  shows "video_timers (snd (handleVideoFile_uploaded x p)) = video_timers p
       \<and> statusPollInterval (snd (handleVideoFile_uploaded x p)) = statusPollInterval p"
  using assms
  by (auto simp add: handleVideoFile_uploaded_def upload_fails_def Let_def
        split: sum.splits option.splits)

lemma handleVideoFile_uploaded_fails:
  assumes "upload_fails x"
  shows "snd (handleVideoFile_uploaded x p) = snd (resetVideoEditor p)"
  using assms
  by (auto simp add: handleVideoFile_uploaded_def upload_fails_def Let_def split_beta
        resetVideoEditor_def split: sum.splits option.splits)

lemma step_keeps_polling:
  assumes "\<not> may_stop_polling ev"
  shows "video_timers (snd (video_step fmt ev p)) = video_timers p
       \<and> statusPollInterval (snd (video_step fmt ev p)) = statusPollInterval p"
proof (cases ev)
  case (FileChosen f)
  then show ?thesis by (simp add: video_step_def handleVideoFile_def Let_def)
next
  case (UploadSettled x)
  with assms show ?thesis by (simp add: video_step_def handleVideoFile_uploaded_keeps)
next
  case UpscaleClicked
  then show ?thesis by (simp add: video_step_def upscaleVideo_def)
next
  case (ResizeClicked t w h m)
  then show ?thesis by (simp add: video_step_def resizeVideo_def Let_def)
next
  case (TimerFired t)
  then show ?thesis by (simp add: video_step_def split: option.splits callback.splits)
next
  case (StatusReplied job reply)
  with assms show ?thesis by (simp add: video_step_def checkVideoStatus_replied_keeps)
next
  case (DownloadClicked now)
  then show ?thesis by (simp add: video_step_def downloadVideo_def)
qed (use assms in \<open>simp_all add: video_step_def\<close>)

lemma submission_reply_state:
  assumes "video_inv p"
  shows "snd (upscaleVideo_replied reply p) =
           (case snd (apiRequest_settle reply) of
              Inr v \<Rightarrow> snd (startStatusPolling (p\<lparr>jobId := get_job_id v\<rparr>))
            | Inl err \<Rightarrow> p\<lparr>processingSection_hidden := True, upscaleBtn_disabled := False\<rparr>)"
    and "snd (resizeVideo_replied reply p) =
           (case snd (apiRequest_settle reply) of
              Inr v \<Rightarrow> snd (startStatusPolling (p\<lparr>jobId := get_job_id v\<rparr>))
            | Inl err \<Rightarrow> p\<lparr>processingSection_hidden := True, resizeBtn_disabled := False\<rparr>)"
  by (simp_all add: upscaleVideo_replied_def resizeVideo_replied_def Let_def split_beta
        split: sum.splits)

lemma video_inv_submission_reply:
  assumes "video_inv p"
  shows "video_inv (snd (upscaleVideo_replied reply p))"
    and "video_inv (snd (resizeVideo_replied reply p))"
proof -
  have j: "\<And>v. video_inv (p\<lparr>jobId := get_job_id v\<rparr>)"
    using assms by (simp add: video_inv_def)
  have a: "video_inv (p\<lparr>processingSection_hidden := True, upscaleBtn_disabled := False\<rparr>)"
    using assms by (simp add: video_inv_def)
  have b: "video_inv (p\<lparr>processingSection_hidden := True, resizeBtn_disabled := False\<rparr>)"
    using assms by (simp add: video_inv_def)
  show "video_inv (snd (upscaleVideo_replied reply p))"
    unfolding submission_reply_state(1)[OF assms]
    using a video_inv_startStatusPolling[OF j] by (simp split: sum.splits)
  show "video_inv (snd (resizeVideo_replied reply p))"
    unfolding submission_reply_state(2)[OF assms]
    using b video_inv_startStatusPolling[OF j] by (simp split: sum.splits)
qed

lemma video_beforeunload_timers:
  assumes "video_inv p"
  shows "live (video_timers (snd (video_beforeunload p))) = []
       \<and> next_id (video_timers (snd (video_beforeunload p))) = next_id (video_timers p)"
proof (cases "truthy_handle (statusPollInterval p)")
  case True
  with video_inv_cleared[OF assms] show ?thesis by (simp add: video_beforeunload_def)
next
  case False
  with video_inv_falsy[OF assms False] show ?thesis by (simp add: video_beforeunload_def)
qed

lemma video_inv_step:
  assumes "video_inv p"
  shows "video_inv (snd (video_step fmt ev p))"
proof (cases "may_stop_polling ev")
  case False
  from step_keeps_polling[OF False, of fmt p] assms show ?thesis
    by (simp add: video_inv_cong)
next
  case True
  then show ?thesis
  proof (cases ev)
    case (UploadSettled x)
    with True have "upload_fails x" by simp
    with UploadSettled video_inv_resetVideoEditor[OF assms] show ?thesis
      by (simp add: video_step_def handleVideoFile_uploaded_fails)
  next
    case RemoveClicked
    with video_inv_resetVideoEditor[OF assms] show ?thesis by (simp add: video_step_def)
  next
    case (UpscaleReplied reply)
    with video_inv_submission_reply(1)[OF assms] show ?thesis by (simp add: video_step_def)
  next
    case (ResizeReplied reply)
    with video_inv_submission_reply(2)[OF assms] show ?thesis by (simp add: video_step_def)
  next
    case (StatusReplied job reply)
    with True have t: "terminal_reply reply" by simp
    have "live (video_timers (snd (checkVideoStatus_replied reply p))) = []"
      using checkVideoStatus_replied_terminal[OF t, of p] video_inv_cleared[OF assms] by simp
    moreover have "0 < next_id (video_timers (snd (checkVideoStatus_replied reply p)))"
      using checkVideoStatus_replied_terminal[OF t, of p] video_inv_pos[OF assms] by simp
    ultimately show ?thesis using StatusReplied by (simp add: video_step_def video_inv_empty)
  next
    case BeforeUnload
    with video_beforeunload_timers[OF assms] video_inv_pos[OF assms] show ?thesis
      by (simp add: video_step_def video_inv_empty)
  qed simp_all
qed

lemma video_inv_run:
  "video_inv p \<Longrightarrow> video_inv (snd (video_run fmt evs p))"
  by (induction evs arbitrary: p) (simp_all add: split_beta Let_def video_inv_step)

lemma live_clearInterval_empty: "live tm = [] \<Longrightarrow> live (clearInterval h tm) = []"
  by (simp add: clearInterval_def split: option.splits)

lemma resetVideoEditor_no_timer:
  assumes "live (video_timers p) = []"
  shows "live (video_timers (snd (resetVideoEditor p))) = []
       \<and> list_all (\<lambda>x. \<not> is_status_request x) (fst (resetVideoEditor p))"
  using assms by (simp add: resetVideoEditor_def Let_def split_beta live_clearInterval_empty)

lemma handleError_no_status_request:
  "list_all (\<lambda>x. \<not> is_status_request x) (handleError err ctx)"
  by (cases err) (simp add: handleError_def showToast_def)

lemma apiRequest_settle_no_status_request:
  "list_all (\<lambda>x. \<not> is_status_request x) (fst (apiRequest_settle reply))"
  by (cases reply) (simp_all add: apiRequest_settle_def Let_def)

lemma checkVideoStatus_replied_no_timer:
  assumes "live (video_timers p) = []"
  shows "live (video_timers (snd (checkVideoStatus_replied reply p))) = []
       \<and> list_all (\<lambda>x. \<not> is_status_request x) (fst (checkVideoStatus_replied reply p))"
  using assms
  by (cases reply)
     (auto simp add: checkVideoStatus_replied_def apiRequest_settle_def showToast_def Let_def
        live_clearInterval_empty split: js_error.splits)

lemma handleVideoFile_uploaded_no_timer:
  assumes "live (video_timers p) = []"
  shows "live (video_timers (snd (handleVideoFile_uploaded x p))) = []
       \<and> list_all (\<lambda>x. \<not> is_status_request x) (fst (handleVideoFile_uploaded x p))"
proof -
  have r: "\<And>a. live (video_timers (snd (resetVideoEditor (p\<lparr>uploadId := a\<rparr>)))) = []
       \<and> list_all (\<lambda>x. \<not> is_status_request x) (fst (resetVideoEditor (p\<lparr>uploadId := a\<rparr>)))"
    using assms by (intro resetVideoEditor_no_timer) simp
  show ?thesis
    using assms r resetVideoEditor_no_timer[OF assms] handleError_no_status_request
    by (auto simp add: handleVideoFile_uploaded_def Let_def split_beta showToast_def
          split: sum.splits option.splits)
qed

lemma step_no_timer_no_poll:
  assumes "live (video_timers p) = []" and "\<not> is_submission_reply ev"
  shows "live (video_timers (snd (video_step fmt ev p))) = []
       \<and> list_all (\<lambda>x. \<not> is_status_request x) (fst (video_step fmt ev p))"
proof (cases ev)
  case (FileChosen f)
  with assms show ?thesis
    by (simp add: video_step_def handleVideoFile_def Let_def showToast_def uploadFile_def)
next
  case (UploadSettled x)
  with handleVideoFile_uploaded_no_timer[OF assms(1)] show ?thesis by (simp add: video_step_def)
next
  case RemoveClicked
  with resetVideoEditor_no_timer[OF assms(1)] show ?thesis by (simp add: video_step_def)
next
  case UpscaleClicked
  with assms show ?thesis
    by (simp add: video_step_def upscaleVideo_def showToast_def apiRequest_def)
next
  case (ResizeClicked t w h m)
  with assms show ?thesis
    by (simp add: video_step_def resizeVideo_def showToast_def apiRequest_def Let_def)
next
  case (TimerFired t)
  with assms show ?thesis by (simp add: video_step_def)
next
  case (StatusReplied job reply)
  with checkVideoStatus_replied_no_timer[OF assms(1)] show ?thesis by (simp add: video_step_def)
next
  case (DownloadClicked now)
  with assms show ?thesis by (simp add: video_step_def downloadVideo_def showToast_def)
next
  case BeforeUnload
  with assms show ?thesis
    by (simp add: video_step_def video_beforeunload_def live_clearInterval_empty)
qed (use assms in \<open>simp_all add: video_step_def\<close>)

lemma run_no_timer_no_poll:
  assumes "live (video_timers p) = []" and "list_all (\<lambda>e. \<not> is_submission_reply e) evs"
  shows "list_all (\<lambda>x. \<not> is_status_request x) (fst (video_run fmt evs p))"
  using assms
proof (induction evs arbitrary: p)
  case Nil
  then show ?case by simp
next
  case (Cons ev evs)
  from Cons.prems have ev: "\<not> is_submission_reply ev"
    and rest: "list_all (\<lambda>e. \<not> is_submission_reply e) evs" by simp_all
  from step_no_timer_no_poll[OF Cons.prems(1) ev, of fmt]
  have l: "live (video_timers (snd (video_step fmt ev p))) = []"
    and q: "list_all (\<lambda>x. \<not> is_status_request x) (fst (video_step fmt ev p))" by simp_all
  from Cons.IH[OF l rest] q show ?case by (simp add: split_beta Let_def)
qed

lemma timer_lookup:
  assumes "video_inv p" and "(t, cb, ms) \<in> set (live (video_timers p))"
  shows "map_of (live (video_timers p)) t = Some (cb, ms)"
  using assms by (simp add: video_inv_def timers_ok_def)

lemma submission_reply_effects:
  assumes "snd (apiRequest_settle reply) = Inr v"
  shows "fst (upscaleVideo_replied reply p) =
           fst (startStatusPolling (p\<lparr>jobId := get_job_id v\<rparr>))
           @ [ShowToast ''Video upscaling started'' ''info'' 5000]"
    and "fst (resizeVideo_replied reply p) =
           fst (startStatusPolling (p\<lparr>jobId := get_job_id v\<rparr>))
           @ [ShowToast ''Video resizing started'' ''info'' 5000]"
  using assms
  by (cases reply;
      simp add: upscaleVideo_replied_def resizeVideo_replied_def apiRequest_settle_def Let_def
        split_beta showToast_def)+

lemmas video_unfold =
  video_step_def handleVideoFile_def handleVideoFile_uploaded_def resetVideoEditor_def
  checkVideoStatus_def startStatusPolling_def checkVideoStatus_replied_def upscaleVideo_def
  upscaleVideo_replied_def resizeVideo_def resizeVideo_replied_def downloadVideo_def
  video_beforeunload_def video_start_def example_video_markup_def apiRequest_def apiRequest_settle_def uploadFile_def
  uploadFile_settle_def showToast_def handleError_def get_job_id_def get_status_def
  get_error_def js_or_def truthy_string_def truthy_handle_def json_string_def
  template_text_def setInterval_def clearInterval_def validateVideoFile_def int_or_def
  example_video_def empty_response_def Let_def

lemma example_polling_value:
  "example_polling =
     \<lparr>uploadId = Some ''U1'', jobId = Some ''J1'', originalFile = Some example_video,
      metadata = Some \<lparr>md_duration = None, md_width = 1280, md_height = 720, md_size = None\<rparr>,
      currentOperation = ''upscale'', selectedResolution = ''1080p'', quality = ''high'',
      resizeMethod = ''filesize'', statusPollInterval = Some 1,
      previewContainer_hidden = True, dropzone_display = ''block'',
      upscaleOptions_hidden = False, resizeOptions_hidden = True,
      upscaleBtn_disabled = True, resizeBtn_disabled = False,
      processingSection_hidden = False, downloadSection_hidden = True,
      video_timers = \<lparr>live = [(1, CheckVideoStatus, 2000)], next_id = 2\<rparr>\<rparr>"
  by (simp add: example_polling_def video_unfold)

text \<open>
  C1. On the video editor page at most one polling interval is active at any time: after any
  sequence of events from the page's start the timer table holds at most one interval, and
  when the reply to a submission (upscale or resize) arrives while an interval is active, the
  handler first clears that interval, then registers the new one, which is afterwards the
  only one in the table.
\<close>

theorem one_polling_loop:
  assumes "0 < n" and "p = snd (video_run fmt evs (video_start mk n))"
    and "snd (apiRequest_settle reply) = Inr v"
    and "ev = UpscaleReplied reply \<or> ev = ResizeReplied reply"
  shows "length (live (video_timers p)) \<le> 1
     \<and> (\<forall>e \<in> set (live (video_timers p)).
          take 2 (fst (video_step fmt ev p))
            = [ClearIntervalCall (Some (fst e)),
               SetIntervalCall CheckVideoStatus 2000 (next_id (video_timers p))]
          \<and> fst e \<noteq> next_id (video_timers p))
     \<and> live (video_timers (snd (video_step fmt ev p)))
         = [(next_id (video_timers p), CheckVideoStatus, 2000)]
     \<and> statusPollInterval (snd (video_step fmt ev p)) = Some (next_id (video_timers p))"
proof -
  have inv: "video_inv p"
    using assms(1,2) by (simp add: video_inv_start video_inv_run)
  let ?q = "p\<lparr>jobId := get_job_id v\<rparr>"
  have invq: "video_inv ?q" using inv by (simp add: video_inv_def)
  have eff: "fst (video_step fmt ev p) =
      (if truthy_handle (statusPollInterval p) then [ClearIntervalCall (statusPollInterval p)] else [])
      @ SetIntervalCall CheckVideoStatus 2000 (next_id (video_timers p))
      # fst (checkVideoStatus ?q) @ [ShowToast (if ev = UpscaleReplied reply
          then ''Video upscaling started'' else ''Video resizing started'') ''info'' 5000]"
    using assms(4) submission_reply_effects[OF assms(3), of p]
    by (auto simp add: video_step_def startStatusPolling_effects)
  have st: "snd (video_step fmt ev p) = snd (startStatusPolling ?q)"
    using assms(3,4) submission_reply_state[OF inv, of reply]
    by (auto simp add: video_step_def)
  have one: "length (live (video_timers p)) \<le> 1"
    using video_inv_at_most_one[OF inv] by simp
  have two: "\<forall>e \<in> set (live (video_timers p)).
          take 2 (fst (video_step fmt ev p))
            = [ClearIntervalCall (Some (fst e)),
               SetIntervalCall CheckVideoStatus 2000 (next_id (video_timers p))]
          \<and> fst e \<noteq> next_id (video_timers p)"
  proof
    fix e assume e: "e \<in> set (live (video_timers p))"
    from video_inv_handle[OF inv e] video_inv_truthy[OF inv e]
    have h: "statusPollInterval p = Some (fst e)" "truthy_handle (statusPollInterval p)" by simp_all
    from inv e have "fst e < next_id (video_timers p)"
      by (auto simp add: video_inv_def timers_ok_def)
    with h show "take 2 (fst (video_step fmt ev p))
            = [ClearIntervalCall (Some (fst e)),
               SetIntervalCall CheckVideoStatus 2000 (next_id (video_timers p))]
          \<and> fst e \<noteq> next_id (video_timers p)"
      by (simp add: eff)
  qed
  have three: "live (video_timers (snd (video_step fmt ev p)))
         = [(next_id (video_timers p), CheckVideoStatus, 2000)]
     \<and> statusPollInterval (snd (video_step fmt ev p)) = Some (next_id (video_timers p))"
    unfolding st startStatusPolling_state[OF invq] by simp
  from one two three show ?thesis by blast
qed

theorem one_polling_loop_witness:
  "example_polling = snd (video_run example_fmt
            [FileChosen example_video,
             UploadSettled (XhrLoad 200
               (Some (empty_response\<lparr>r_upload_id := Some ''U1'', r_resolution := Some (1280, 720)\<rparr>))),
             UpscaleClicked,
             UpscaleReplied (HttpJson (empty_response\<lparr>r_job_id := Some ''J1''\<rparr>))]
            (video_start example_video_markup 1))
   \<and> live (video_timers example_polling) = [(1, CheckVideoStatus, 2000)]
   \<and> take 2 (fst (video_step example_fmt
         (ResizeReplied (HttpJson (empty_response\<lparr>r_job_id := Some ''J2''\<rparr>))) example_polling))
       = [ClearIntervalCall (Some 1), SetIntervalCall CheckVideoStatus 2000 2]
   \<and> live (video_timers (snd (video_step example_fmt
         (ResizeReplied (HttpJson (empty_response\<lparr>r_job_id := Some ''J2''\<rparr>))) example_polling)))
       = [(2, CheckVideoStatus, 2000)]"
proof -
  have a: "example_polling = snd (video_run example_fmt
            [FileChosen example_video,
             UploadSettled (XhrLoad 200
               (Some (empty_response\<lparr>r_upload_id := Some ''U1'', r_resolution := Some (1280, 720)\<rparr>))),
             UpscaleClicked,
             UpscaleReplied (HttpJson (empty_response\<lparr>r_job_id := Some ''J1''\<rparr>))]
            (video_start example_video_markup 1))"
    by (simp add: example_polling_def)
  have b: "snd (apiRequest_settle (HttpJson (empty_response\<lparr>r_job_id := Some ''J2''\<rparr>)))
             = Inr (Body (empty_response\<lparr>r_job_id := Some ''J2''\<rparr>))"
    by (simp add: apiRequest_settle_def)
  have c: "live (video_timers example_polling) = [(1, CheckVideoStatus, 2000)]"
    and d: "next_id (video_timers example_polling) = 2"
    by (simp_all add: example_polling_value)
  from one_polling_loop [OF _ a b, of "ResizeReplied (HttpJson (empty_response\<lparr>r_job_id := Some ''J2''\<rparr>))"]
  show ?thesis using a c d by simp
qed

lemma terminal_step:
  assumes "video_inv p" and "terminal_reply reply"
  shows "ClearIntervalCall (statusPollInterval p)
           \<in> set (fst (video_step fmt (StatusReplied job reply) p))"
    and "live (video_timers (snd (video_step fmt (StatusReplied job reply) p))) = []"
    and "statusPollInterval (snd (video_step fmt (StatusReplied job reply) p)) = None"
proof -
  show "ClearIntervalCall (statusPollInterval p)
           \<in> set (fst (video_step fmt (StatusReplied job reply) p))"
    using assms(2)
    by (cases reply)
       (auto simp add: video_step_def checkVideoStatus_replied_def apiRequest_settle_def
          terminal_reply_def get_status_def Let_def)
  show "live (video_timers (snd (video_step fmt (StatusReplied job reply) p))) = []"
    using checkVideoStatus_replied_terminal[OF assms(2), of p] video_inv_cleared[OF assms(1)]
    by (simp add: video_step_def)
  show "statusPollInterval (snd (video_step fmt (StatusReplied job reply) p)) = None"
    using checkVideoStatus_replied_terminal[OF assms(2), of p] by (simp add: video_step_def)
qed

lemma timer_fired_polls:
  assumes "video_inv p" and "(t, CheckVideoStatus, ms) \<in> set (live (video_timers p))"
    and "truthy_string (jobId p)"
  shows "video_step fmt (TimerFired t) p =
           ([FetchRequest (''/api/video/status/'' @ template_text (jobId p)) ''GET'' []], p)"
  using timer_lookup[OF assms(1,2)] assms(3)
  by (simp add: video_step_def checkVideoStatus_def apiRequest_def)

lemma submission_starts_polling:
  assumes "video_inv p" and "truthy_string (r_job_id r)"
  shows "fst (video_step fmt (UpscaleReplied (HttpJson r)) p) =
           (if truthy_handle (statusPollInterval p)
            then [ClearIntervalCall (statusPollInterval p)] else [])
           @ [SetIntervalCall CheckVideoStatus 2000 (next_id (video_timers p)),
              FetchRequest (''/api/video/status/'' @ template_text (r_job_id r)) ''GET'' [],
              ShowToast ''Video upscaling started'' ''info'' 5000]"
    and "fst (video_step fmt (ResizeReplied (HttpJson r)) p) =
           (if truthy_handle (statusPollInterval p)
            then [ClearIntervalCall (statusPollInterval p)] else [])
           @ [SetIntervalCall CheckVideoStatus 2000 (next_id (video_timers p)),
              FetchRequest (''/api/video/status/'' @ template_text (r_job_id r)) ''GET'' [],
              ShowToast ''Video resizing started'' ''info'' 5000]"
    and "snd (video_step fmt (UpscaleReplied (HttpJson r)) p) =
           p\<lparr>jobId := r_job_id r,
             video_timers := \<lparr>live = [(next_id (video_timers p), CheckVideoStatus, 2000)],
                               next_id = Suc (next_id (video_timers p))\<rparr>,
             statusPollInterval := Some (next_id (video_timers p))\<rparr>"
    and "snd (video_step fmt (ResizeReplied (HttpJson r)) p) =
           p\<lparr>jobId := r_job_id r,
             video_timers := \<lparr>live = [(next_id (video_timers p), CheckVideoStatus, 2000)],
                               next_id = Suc (next_id (video_timers p))\<rparr>,
             statusPollInterval := Some (next_id (video_timers p))\<rparr>"
proof -
  have s: "snd (apiRequest_settle (HttpJson r)) = Inr (Body r)"
    by (simp add: apiRequest_settle_def)
  have invq: "video_inv (p\<lparr>jobId := r_job_id r\<rparr>)" using assms(1) by (simp add: video_inv_def)
  show "fst (video_step fmt (UpscaleReplied (HttpJson r)) p) =
           (if truthy_handle (statusPollInterval p)
            then [ClearIntervalCall (statusPollInterval p)] else [])
           @ [SetIntervalCall CheckVideoStatus 2000 (next_id (video_timers p)),
              FetchRequest (''/api/video/status/'' @ template_text (r_job_id r)) ''GET'' [],
              ShowToast ''Video upscaling started'' ''info'' 5000]"
    using assms(2) submission_reply_effects(1)[OF s, of p]
    by (simp add: video_step_def startStatusPolling_effects get_job_id_def checkVideoStatus_def
          apiRequest_def)
  show "fst (video_step fmt (ResizeReplied (HttpJson r)) p) =
           (if truthy_handle (statusPollInterval p)
            then [ClearIntervalCall (statusPollInterval p)] else [])
           @ [SetIntervalCall CheckVideoStatus 2000 (next_id (video_timers p)),
              FetchRequest (''/api/video/status/'' @ template_text (r_job_id r)) ''GET'' [],
              ShowToast ''Video resizing started'' ''info'' 5000]"
    using assms(2) submission_reply_effects(2)[OF s, of p]
    by (simp add: video_step_def startStatusPolling_effects get_job_id_def checkVideoStatus_def
          apiRequest_def)
  show "snd (video_step fmt (UpscaleReplied (HttpJson r)) p) =
           p\<lparr>jobId := r_job_id r,
             video_timers := \<lparr>live = [(next_id (video_timers p), CheckVideoStatus, 2000)],
                               next_id = Suc (next_id (video_timers p))\<rparr>,
             statusPollInterval := Some (next_id (video_timers p))\<rparr>"
    using submission_reply_state(1)[OF assms(1), of "HttpJson r"] startStatusPolling_state[OF invq]
    by (simp add: video_step_def s get_job_id_def)
  show "snd (video_step fmt (ResizeReplied (HttpJson r)) p) =
           p\<lparr>jobId := r_job_id r,
             video_timers := \<lparr>live = [(next_id (video_timers p), CheckVideoStatus, 2000)],
                               next_id = Suc (next_id (video_timers p))\<rparr>,
             statusPollInterval := Some (next_id (video_timers p))\<rparr>"
    using submission_reply_state(2)[OF assms(1), of "HttpJson r"] startStatusPolling_state[OF invq]
    by (simp add: video_step_def s get_job_id_def)
qed

lemma step_keeps_job:
  assumes "\<not> may_stop_polling ev"
  shows "jobId (snd (video_step fmt ev p)) = jobId p"
proof (cases ev)
  case (FileChosen f)
  then show ?thesis by (simp add: video_step_def handleVideoFile_def Let_def)
next
  case (UploadSettled x)
  with assms show ?thesis
    by (auto simp add: video_step_def handleVideoFile_uploaded_def upload_fails_def Let_def
          split: sum.splits option.splits)
next
  case UpscaleClicked
  then show ?thesis by (simp add: video_step_def upscaleVideo_def)
next
  case (ResizeClicked t w h m)
  then show ?thesis by (simp add: video_step_def resizeVideo_def Let_def)
next
  case (TimerFired t)
  then show ?thesis by (simp add: video_step_def split: option.splits callback.splits)
next
  case (StatusReplied job reply)
  with assms show ?thesis by (simp add: video_step_def checkVideoStatus_replied_keeps)
next
  case (DownloadClicked now)
  then show ?thesis by (simp add: video_step_def downloadVideo_def)
qed (use assms in \<open>simp_all add: video_step_def\<close>)

lemma step_stops_clears:
  assumes "video_inv p" and "may_stop_polling ev" and "\<not> is_submission_reply ev"
  shows "live (video_timers (snd (video_step fmt ev p))) = []"
proof (cases ev)
  case (UploadSettled x)
  with assms(2) have "upload_fails x" by simp
  with UploadSettled resetVideoEditor_timers[OF assms(1)] show ?thesis
    by (simp add: video_step_def handleVideoFile_uploaded_fails)
next
  case RemoveClicked
  with resetVideoEditor_timers[OF assms(1)] show ?thesis by (simp add: video_step_def)
next
  case (StatusReplied job reply)
  with assms(2) have "terminal_reply reply" by simp
  from terminal_step(2)[OF assms(1) this] StatusReplied show ?thesis by simp
next
  case BeforeUnload
  with video_beforeunload_timers[OF assms(1)] show ?thesis by (simp add: video_step_def)
qed (use assms in simp_all)

lemma step_effects_not_status:
  assumes "\<not> is_submission_reply ev" and "\<forall>t. ev \<noteq> TimerFired t"
  shows "list_all (\<lambda>x. \<not> is_status_request x) (fst (video_step fmt ev p))"
proof (cases ev)
  case (FileChosen f)
  then show ?thesis
    by (simp add: video_step_def handleVideoFile_def Let_def showToast_def uploadFile_def)
next
  case (UploadSettled x)
  then show ?thesis
    using handleError_no_status_request
    by (auto simp add: video_step_def handleVideoFile_uploaded_def Let_def split_beta showToast_def
          resetVideoEditor_def split: sum.splits option.splits)
next
  case RemoveClicked
  then show ?thesis by (simp add: video_step_def resetVideoEditor_def Let_def split_beta)
next
  case UpscaleClicked
  then show ?thesis by (simp add: video_step_def upscaleVideo_def showToast_def apiRequest_def)
next
  case (ResizeClicked t w h m)
  then show ?thesis
    by (simp add: video_step_def resizeVideo_def showToast_def apiRequest_def Let_def)
next
  case (StatusReplied job reply)
  then show ?thesis
    by (cases reply)
       (auto simp add: video_step_def checkVideoStatus_replied_def apiRequest_settle_def
          showToast_def Let_def split: js_error.splits)
next
  case (DownloadClicked now)
  then show ?thesis by (simp add: video_step_def downloadVideo_def showToast_def)
next
  case BeforeUnload
  then show ?thesis by (simp add: video_step_def video_beforeunload_def)
qed (use assms in \<open>simp_all add: video_step_def\<close>)

lemma not_status_request_absent:
  assumes "list_all (\<lambda>x. \<not> is_status_request x) es"
  shows "FetchRequest (''/api/video/status/'' @ j) m b \<notin> set es"
proof
  assume "FetchRequest (''/api/video/status/'' @ j) m b \<in> set es"
  with assms have "\<not> is_status_request (FetchRequest (''/api/video/status/'' @ j) m b)"
    unfolding list_all_iff by blast
  then show False by simp
qed

lemma checkVideoStatus_other_job:
  assumes "jobId p \<noteq> Some j"
  shows "FetchRequest (''/api/video/status/'' @ j) ''GET'' [] \<notin> set (fst (checkVideoStatus p))"
  using assms
  by (cases "jobId p")
     (simp_all add: checkVideoStatus_def apiRequest_def truthy_string_def template_text_def)

lemma startStatusPolling_other_job:
  assumes "jobId p \<noteq> Some j"
  shows "FetchRequest (''/api/video/status/'' @ j) ''GET'' [] \<notin> set (fst (startStatusPolling p))"
  using checkVideoStatus_other_job[OF assms]
  by (simp add: startStatusPolling_effects)

lemma step_polls_current_or_submitted:
  assumes "video_inv p"
    and "live (video_timers p) = [] \<or> jobId p \<noteq> Some j"
    and "Some j \<notin> set (submitted_jobs ev)"
  shows "FetchRequest (''/api/video/status/'' @ j) ''GET'' [] \<notin> set (fst (video_step fmt ev p))"
    and "live (video_timers (snd (video_step fmt ev p))) = []
         \<or> jobId (snd (video_step fmt ev p)) \<noteq> Some j"
proof -
  let ?req = "FetchRequest (''/api/video/status/'' @ j) ''GET'' []"
  have "?req \<notin> set (fst (video_step fmt ev p))
      \<and> (live (video_timers (snd (video_step fmt ev p))) = []
         \<or> jobId (snd (video_step fmt ev p)) \<noteq> Some j)"
  proof (cases "is_submission_reply ev")
    case True
    then obtain reply where ev: "ev = UpscaleReplied reply \<or> ev = ResizeReplied reply"
      by (cases ev) auto
    show ?thesis
    proof (cases "snd (apiRequest_settle reply)")
      case (Inl err)
      have nr: "list_all (\<lambda>x. \<not> is_status_request x) (fst (video_step fmt ev p))"
        using ev Inl apiRequest_settle_no_status_request[of reply]
          handleError_no_status_request[of err]
        by (auto simp add: video_step_def upscaleVideo_replied_def resizeVideo_replied_def
              Let_def split_beta)
      have "?req \<notin> set (fst (video_step fmt ev p))"
        using nr by (rule not_status_request_absent)
      moreover have "video_timers (snd (video_step fmt ev p)) = video_timers p
          \<and> jobId (snd (video_step fmt ev p)) = jobId p"
        using ev Inl submission_reply_state[OF assms(1), of reply]
        by (auto simp add: video_step_def)
      ultimately show ?thesis using assms(2) by simp
    next
      case (Inr v)
      with ev assms(3) have nj: "get_job_id v \<noteq> Some j" by auto
      have invq: "video_inv (p\<lparr>jobId := get_job_id v\<rparr>)"
        using assms(1) by (simp add: video_inv_def)
      have st: "snd (video_step fmt ev p) = snd (startStatusPolling (p\<lparr>jobId := get_job_id v\<rparr>))"
        using ev Inr submission_reply_state[OF assms(1), of reply] by (auto simp add: video_step_def)
      have "jobId (snd (video_step fmt ev p)) = get_job_id v"
        unfolding st startStatusPolling_state[OF invq] by simp
      moreover have "?req \<notin> set (fst (video_step fmt ev p))"
        using ev submission_reply_effects[OF Inr, of p]
          startStatusPolling_other_job[of "p\<lparr>jobId := get_job_id v\<rparr>" j] nj
        by (auto simp add: video_step_def)
      ultimately show ?thesis using nj by simp
    qed
  next
    case False
    show ?thesis
    proof (cases "\<exists>t. ev = TimerFired t")
      case True
      then obtain t where ev: "ev = TimerFired t" by blast
      have "?req \<notin> set (fst (video_step fmt ev p))"
      proof (cases "live (video_timers p) = []")
        case True
        with ev show ?thesis by (simp add: video_step_def)
      next
        case False
        with assms(2) have "jobId p \<noteq> Some j" by simp
        from checkVideoStatus_other_job[OF this] ev show ?thesis
          by (simp add: video_step_def split: option.splits callback.splits prod.splits)
      qed
      moreover have "snd (video_step fmt ev p) = p"
        using ev by (simp add: video_step_def split: option.splits callback.splits prod.splits)
      ultimately show ?thesis using assms(2) by simp
    next
      case nt: False
      then have "\<forall>t. ev \<noteq> TimerFired t" by simp
      from step_effects_not_status[OF False this, of fmt p]
      have "?req \<notin> set (fst (video_step fmt ev p))"
        by (rule not_status_request_absent)
      moreover have "live (video_timers (snd (video_step fmt ev p))) = []
         \<or> jobId (snd (video_step fmt ev p)) \<noteq> Some j"
      proof (cases "may_stop_polling ev")
        case True
        from step_stops_clears[OF assms(1) True False] show ?thesis by simp
      next
        case nm: False
        from step_keeps_polling[OF nm, of fmt p] step_keeps_job[OF nm, of fmt p] assms(2)
        show ?thesis by simp
      qed
      ultimately show ?thesis by simp
    qed
  qed
  then show "?req \<notin> set (fst (video_step fmt ev p))"
    and "live (video_timers (snd (video_step fmt ev p))) = []
         \<or> jobId (snd (video_step fmt ev p)) \<noteq> Some j"
    by simp_all
qed

lemma run_polls_current_or_submitted:
  assumes "video_inv p"
    and "live (video_timers p) = [] \<or> jobId p \<noteq> Some j"
    and "Some j \<notin> set (concat (map submitted_jobs evs))"
  shows "FetchRequest (''/api/video/status/'' @ j) ''GET'' [] \<notin> set (fst (video_run fmt evs p))"
  using assms
proof (induction evs arbitrary: p)
  case Nil
  then show ?case by simp
next
  case (Cons ev evs)
  from Cons.prems(3) have a: "Some j \<notin> set (submitted_jobs ev)"
    and b: "Some j \<notin> set (concat (map submitted_jobs evs))" by simp_all
  note s = step_polls_current_or_submitted[OF Cons.prems(1,2) a, of fmt]
  from Cons.IH[OF video_inv_step[OF Cons.prems(1)] s(2) b] s(1)
  show ?case by (simp add: split_beta Let_def)
qed

text \<open>
  What holds of the polling schedule, handler by handler. A successful submission registers
  the interval with a period of 2000 ms and issues the first status request at once; each
  time the interval fires a status request goes out; every event other than a terminal
  status, a reset, the unload handler or the reply to a new submission leaves the interval in
  place; a reply with status completed or failed, whichever request it answers, clears the
  stored interval, and from then on no status request is issued until a new submission is
  answered, and none ever for a job handle that no later submission's reply carries.
\<close>

lemma polling_per_reply:
  assumes "video_inv p"
  shows "(truthy_string (r_job_id r) \<longrightarrow>
           fst (video_step fmt (UpscaleReplied (HttpJson r)) p) =
             (if truthy_handle (statusPollInterval p)
              then [ClearIntervalCall (statusPollInterval p)] else [])
             @ [SetIntervalCall CheckVideoStatus 2000 (next_id (video_timers p)),
                FetchRequest (''/api/video/status/'' @ template_text (r_job_id r)) ''GET'' [],
                ShowToast ''Video upscaling started'' ''info'' 5000]
           \<and> fst (video_step fmt (ResizeReplied (HttpJson r)) p) =
             (if truthy_handle (statusPollInterval p)
              then [ClearIntervalCall (statusPollInterval p)] else [])
             @ [SetIntervalCall CheckVideoStatus 2000 (next_id (video_timers p)),
                FetchRequest (''/api/video/status/'' @ template_text (r_job_id r)) ''GET'' [],
                ShowToast ''Video resizing started'' ''info'' 5000]
           \<and> live (video_timers (snd (video_step fmt (UpscaleReplied (HttpJson r)) p)))
               = [(next_id (video_timers p), CheckVideoStatus, 2000)]
           \<and> live (video_timers (snd (video_step fmt (ResizeReplied (HttpJson r)) p)))
               = [(next_id (video_timers p), CheckVideoStatus, 2000)]
           \<and> jobId (snd (video_step fmt (UpscaleReplied (HttpJson r)) p)) = r_job_id r
           \<and> jobId (snd (video_step fmt (ResizeReplied (HttpJson r)) p)) = r_job_id r)
       \<and> ((t, CheckVideoStatus, ms) \<in> set (live (video_timers p)) \<and> truthy_string (jobId p) \<longrightarrow>
            video_step fmt (TimerFired t) p =
              ([FetchRequest (''/api/video/status/'' @ template_text (jobId p)) ''GET'' []], p))
       \<and> (\<not> may_stop_polling ev \<longrightarrow>
            video_timers (snd (video_step fmt ev p)) = video_timers p
            \<and> statusPollInterval (snd (video_step fmt ev p)) = statusPollInterval p)
       \<and> (terminal_reply reply \<longrightarrow>
            ClearIntervalCall (statusPollInterval p)
              \<in> set (fst (video_step fmt (StatusReplied job reply) p))
            \<and> live (video_timers (snd (video_step fmt (StatusReplied job reply) p))) = []
            \<and> statusPollInterval (snd (video_step fmt (StatusReplied job reply) p)) = None
            \<and> (list_all (\<lambda>e. \<not> is_submission_reply e) evs \<longrightarrow>
                 list_all (\<lambda>x. \<not> is_status_request x)
                   (fst (video_run fmt evs (snd (video_step fmt (StatusReplied job reply) p)))))
            \<and> (Some j \<notin> set (concat (map submitted_jobs evs')) \<longrightarrow>
                 FetchRequest (''/api/video/status/'' @ j) ''GET'' []
                   \<notin> set (fst (video_run fmt evs' (snd (video_step fmt (StatusReplied job reply) p))))))"
proof (intro conjI impI)
  assume t: "terminal_reply reply" and "Some j \<notin> set (concat (map submitted_jobs evs'))"
  then show "FetchRequest (''/api/video/status/'' @ j) ''GET'' []
                   \<notin> set (fst (video_run fmt evs' (snd (video_step fmt (StatusReplied job reply) p))))"
    using terminal_step(2)[OF assms t, of fmt] video_inv_step[OF assms, of fmt "StatusReplied job reply"]
    by (intro run_polls_current_or_submitted) simp_all
next
  assume "terminal_reply reply" and "list_all (\<lambda>e. \<not> is_submission_reply e) evs"
  then show "list_all (\<lambda>x. \<not> is_status_request x)
                   (fst (video_run fmt evs (snd (video_step fmt (StatusReplied job reply) p))))"
    using terminal_step(2)[OF assms] by (simp add: run_no_timer_no_poll)
next
  assume "(t, CheckVideoStatus, ms) \<in> set (live (video_timers p)) \<and> truthy_string (jobId p)"
  then show "video_step fmt (TimerFired t) p =
              ([FetchRequest (''/api/video/status/'' @ template_text (jobId p)) ''GET'' []], p)"
    using timer_fired_polls[OF assms] by blast
qed (simp_all add: submission_starts_polling[OF assms] step_keeps_polling terminal_step[OF assms])

lemma example_polling_inv: "video_inv example_polling"
  by (simp add: example_polling_value video_inv_def timers_ok_def)

lemma polling_per_reply_example:
  "video_inv example_polling
   \<and> fst (video_step example_fmt
         (UpscaleReplied (HttpJson (empty_response\<lparr>r_job_id := Some ''J2''\<rparr>))) example_polling)
       = [ClearIntervalCall (Some 1), SetIntervalCall CheckVideoStatus 2000 2,
          FetchRequest ''/api/video/status/J2'' ''GET'' [],
          ShowToast ''Video upscaling started'' ''info'' 5000]
   \<and> fst (video_step example_fmt (TimerFired 1) example_polling)
       = [FetchRequest ''/api/video/status/J1'' ''GET'' []]
   \<and> live (video_timers (snd (video_step example_fmt
         (StatusReplied ''J1'' (HttpJson (empty_response\<lparr>r_status := Some ''processing''\<rparr>)))
         example_polling))) = [(1, CheckVideoStatus, 2000)]
   \<and> live (video_timers (snd (video_step example_fmt
         (StatusReplied ''J1'' (HttpJson (empty_response\<lparr>r_status := Some ''completed''\<rparr>)))
         example_polling))) = []
   \<and> fst (video_run example_fmt [TimerFired 1, UpscaleClicked, TimerFired 1]
         (snd (video_step example_fmt
            (StatusReplied ''J1'' (HttpJson (empty_response\<lparr>r_status := Some ''completed''\<rparr>)))
            example_polling)))
       = [FetchRequest ''/api/video/upscale'' ''POST''
            [(''upload_id'', JStr ''U1''), (''resolution'', JStr ''1080p''),
             (''quality'', JStr ''high'')]]
   \<and> FetchRequest ''/api/video/status/J1'' ''GET'' []
       \<notin> set (fst (video_run example_fmt
            [UpscaleClicked,
             UpscaleReplied (HttpJson (empty_response\<lparr>r_job_id := Some ''J2''\<rparr>)),
             TimerFired 2]
            (snd (video_step example_fmt
               (StatusReplied ''J1'' (HttpJson (empty_response\<lparr>r_status := Some ''completed''\<rparr>)))
               example_polling))))"
  using polling_per_reply [OF example_polling_inv,
      where r = "empty_response\<lparr>r_job_id := Some ''J2''\<rparr>" and fmt = example_fmt
        and t = 1 and ms = 2000
        and ev = "StatusReplied ''J1'' (HttpJson (empty_response\<lparr>r_status := Some ''processing''\<rparr>))"
        and reply = "HttpJson (empty_response\<lparr>r_status := Some ''completed''\<rparr>)"
        and evs = "[TimerFired 1, UpscaleClicked, TimerFired 1]"
        and j = "''J1''"
        and evs' = "[UpscaleClicked,
             UpscaleReplied (HttpJson (empty_response\<lparr>r_job_id := Some ''J2''\<rparr>)),
             TimerFired 2]"]
    example_polling_inv
  by (simp add: example_polling_value video_unfold terminal_reply_def)

text \<open>
  C2. The claim fails on the code in this session. Job \<open>J1\<close> is being polled and its first
  status request is still unanswered when the user submits a resize, which is answered with
  \<open>J2\<close>: interval 1 is cleared, interval 2 is registered and the first status request for
  \<open>J2\<close> goes out. Then the reply to the request for \<open>J1\<close> arrives and reports completed. The
  rest of \<open>checkVideoStatus\<close> clears the stored handle, which is now that of interval 2: the
  polling of \<open>J2\<close> ends although no reply for \<open>J2\<close> has arrived and nothing cancelled it, and
  no later event issues a status request for \<open>J2\<close>.
\<close>

theorem stale_reply_ends_polling:
  "live (video_timers (snd (video_run example_fmt
       [TabResizeClicked, ResizeClicked (Some 25) None None True,
        ResizeReplied (HttpJson (empty_response\<lparr>r_job_id := Some ''J2''\<rparr>))]
       example_polling))) = [(2, CheckVideoStatus, 2000)]
   \<and> fst (video_run example_fmt
       [TabResizeClicked, ResizeClicked (Some 25) None None True,
        ResizeReplied (HttpJson (empty_response\<lparr>r_job_id := Some ''J2''\<rparr>)),
        StatusReplied ''J1'' (HttpJson (empty_response\<lparr>r_status := Some ''completed''\<rparr>)),
        TimerFired 2, TimerFired 2]
       example_polling)
     = [FetchRequest ''/api/video/resize'' ''POST''
          [(''upload_id'', JStr ''U1''), (''resize_type'', JStr ''filesize''),
           (''target_mb'', JNum 25)],
        ClearIntervalCall (Some 1), SetIntervalCall CheckVideoStatus 2000 2,
        FetchRequest ''/api/video/status/J2'' ''GET'' [],
        ShowToast ''Video resizing started'' ''info'' 5000,
        ClearIntervalCall (Some 2),
        ShowToast ''Video processed successfully!'' ''success'' 5000]
   \<and> jobId (snd (video_run example_fmt
       [TabResizeClicked, ResizeClicked (Some 25) None None True,
        ResizeReplied (HttpJson (empty_response\<lparr>r_job_id := Some ''J2''\<rparr>)),
        StatusReplied ''J1'' (HttpJson (empty_response\<lparr>r_status := Some ''completed''\<rparr>))]
       example_polling)) = Some ''J2''
   \<and> live (video_timers (snd (video_run example_fmt
       [TabResizeClicked, ResizeClicked (Some 25) None None True,
        ResizeReplied (HttpJson (empty_response\<lparr>r_job_id := Some ''J2''\<rparr>)),
        StatusReplied ''J1'' (HttpJson (empty_response\<lparr>r_status := Some ''completed''\<rparr>))]
       example_polling))) = []
   \<and> statusPollInterval (snd (video_run example_fmt
       [TabResizeClicked, ResizeClicked (Some 25) None None True,
        ResizeReplied (HttpJson (empty_response\<lparr>r_job_id := Some ''J2''\<rparr>)),
        StatusReplied ''J1'' (HttpJson (empty_response\<lparr>r_status := Some ''completed''\<rparr>))]
       example_polling)) = None"
  by (simp add: example_polling_value video_unfold)

text \<open>
  C5. When a status request fails (the fetch rejects, or the response is not ok), the failure
  is logged to the console and nothing else happens: the page's state, its interval included,
  is unchanged, no toast is shown, and the next firing of the interval issues its request.
\<close>

theorem poll_failure_logged_only:
  assumes "reply = FetchRejected m \<or> reply = HttpNotOk code body"
  shows "snd (video_step fmt (StatusReplied job reply) p) = p
     \<and> (\<exists>msg. fst (video_step fmt (StatusReplied job reply) p)
           = [ConsoleError ''API request failed:'' msg,
              ConsoleError ''Error checking video status:'' msg])
     \<and> list_all (\<lambda>x. \<not> is_toast x \<and> \<not> is_timer_call x)
         (fst (video_step fmt (StatusReplied job reply) p))
     \<and> (video_inv p \<and> (t, CheckVideoStatus, ms) \<in> set (live (video_timers p))
          \<and> truthy_string (jobId p) \<longrightarrow>
         fst (video_step fmt (TimerFired t) (snd (video_step fmt (StatusReplied job reply) p)))
           = [FetchRequest (''/api/video/status/'' @ template_text (jobId p)) ''GET'' []])"
proof -
  have st: "snd (video_step fmt (StatusReplied job reply) p) = p"
    using assms
    by (auto simp add: video_step_def checkVideoStatus_replied_def apiRequest_settle_def Let_def)
  have eff: "\<exists>msg. fst (video_step fmt (StatusReplied job reply) p)
           = [ConsoleError ''API request failed:'' msg,
              ConsoleError ''Error checking video status:'' msg]"
    using assms
    by (auto simp add: video_step_def checkVideoStatus_replied_def apiRequest_settle_def Let_def)
  from eff have quiet: "list_all (\<lambda>x. \<not> is_toast x \<and> \<not> is_timer_call x)
         (fst (video_step fmt (StatusReplied job reply) p))"
    by auto
  have nxt: "video_inv p \<and> (t, CheckVideoStatus, ms) \<in> set (live (video_timers p))
          \<and> truthy_string (jobId p) \<longrightarrow>
         fst (video_step fmt (TimerFired t) (snd (video_step fmt (StatusReplied job reply) p)))
           = [FetchRequest (''/api/video/status/'' @ template_text (jobId p)) ''GET'' []]"
    unfolding st using timer_fired_polls[of p t ms fmt] by simp
  from st eff quiet nxt show ?thesis by blast
qed

theorem poll_failure_logged_only_witness:
  "video_step example_fmt (StatusReplied ''J1'' (HttpNotOk 503 None)) example_polling
     = ([ConsoleError ''API request failed:'' ''HTTP error! status: 503'',
         ConsoleError ''Error checking video status:'' ''HTTP error! status: 503''],
        example_polling)
   \<and> video_step example_fmt (StatusReplied ''J1'' (FetchRejected ''Failed to fetch'')) example_polling
     = ([ConsoleError ''API request failed:'' ''Failed to fetch'',
         ConsoleError ''Error checking video status:'' ''Failed to fetch''],
        example_polling)
   \<and> fst (video_step example_fmt (TimerFired 1)
        (snd (video_step example_fmt (StatusReplied ''J1'' (HttpNotOk 503 None)) example_polling)))
     = [FetchRequest ''/api/video/status/J1'' ''GET'' []]"
  using poll_failure_logged_only [where reply = "HttpNotOk 503 None" and code = 503
      and body = None and m = "[]" and fmt = example_fmt and p = example_polling
      and t = 1 and ms = 2000 and job = "''J1''"]
    poll_failure_logged_only [where reply = "FetchRejected ''Failed to fetch''"
      and m = "''Failed to fetch''" and code = 0 and body = None
      and fmt = example_fmt and p = example_polling and t = 1 and ms = 2000
      and job = "''J1''"]
    example_polling_inv
  by (simp add: example_polling_value video_unfold dec.simps)

text \<open>
  What holds of one reply that reports the status failed: the handler clears the stored
  interval and shows one toast, of type error, whose text is the reply's error description
  or, where the reply has none, the default text; afterwards no interval is active, no status
  request is issued until a new submission is answered, and none ever for a job handle that
  no later submission's reply carries.
\<close>

lemma failed_reply_effects:
  assumes "video_inv p" and "r_status r = Some ''failed''"
  shows "fst (video_step fmt (StatusReplied job (HttpJson r)) p) =
           [ClearIntervalCall (statusPollInterval p),
            ShowToast (case r_error r of
                         Some d \<Rightarrow> if d \<noteq> [] then d else ''Video processing failed''
                       | None \<Rightarrow> ''Video processing failed'') ''error'' 5000]
     \<and> length (filter is_toast (fst (video_step fmt (StatusReplied job (HttpJson r)) p))) = 1
     \<and> live (video_timers (snd (video_step fmt (StatusReplied job (HttpJson r)) p))) = []
     \<and> statusPollInterval (snd (video_step fmt (StatusReplied job (HttpJson r)) p)) = None
     \<and> (list_all (\<lambda>e. \<not> is_submission_reply e) evs \<longrightarrow>
          list_all (\<lambda>x. \<not> is_status_request x)
            (fst (video_run fmt evs (snd (video_step fmt (StatusReplied job (HttpJson r)) p)))))
     \<and> (Some j \<notin> set (concat (map submitted_jobs evs')) \<longrightarrow>
          FetchRequest (''/api/video/status/'' @ j) ''GET'' []
            \<notin> set (fst (video_run fmt evs' (snd (video_step fmt (StatusReplied job (HttpJson r)) p)))))"
proof -
  have t: "terminal_reply (HttpJson r)" using assms(2) by (simp add: terminal_reply_def)
  have never: "Some j \<notin> set (concat (map submitted_jobs evs')) \<longrightarrow>
          FetchRequest (''/api/video/status/'' @ j) ''GET'' []
            \<notin> set (fst (video_run fmt evs' (snd (video_step fmt (StatusReplied job (HttpJson r)) p))))"
    using terminal_step(2)[OF assms(1) t, of fmt]
      video_inv_step[OF assms(1), of fmt "StatusReplied job (HttpJson r)"]
    by (intro impI run_polls_current_or_submitted) simp_all
  have eff: "fst (video_step fmt (StatusReplied job (HttpJson r)) p) =
           [ClearIntervalCall (statusPollInterval p),
            ShowToast (case r_error r of
                         Some d \<Rightarrow> if d \<noteq> [] then d else ''Video processing failed''
                       | None \<Rightarrow> ''Video processing failed'') ''error'' 5000]"
    using assms(2)
    by (simp add: video_step_def checkVideoStatus_replied_def apiRequest_settle_def Let_def
          get_status_def get_error_def js_or_def showToast_def split: option.splits)
  have one: "length (filter is_toast (fst (video_step fmt (StatusReplied job (HttpJson r)) p))) = 1"
    unfolding eff by simp
  from terminal_step(2,3)[OF assms(1) t, of fmt] run_no_timer_no_poll[of _ evs fmt]
  have rest: "live (video_timers (snd (video_step fmt (StatusReplied job (HttpJson r)) p))) = []
     \<and> statusPollInterval (snd (video_step fmt (StatusReplied job (HttpJson r)) p)) = None
     \<and> (list_all (\<lambda>e. \<not> is_submission_reply e) evs \<longrightarrow>
          list_all (\<lambda>x. \<not> is_status_request x)
            (fst (video_run fmt evs (snd (video_step fmt (StatusReplied job (HttpJson r)) p)))))"
    by simp
  from eff one rest never show ?thesis by blast
qed

lemma failed_reply_effects_example:
  "video_inv example_polling
   \<and> fst (video_step example_fmt
        (StatusReplied ''J1'' (HttpJson (empty_response\<lparr>r_status := Some ''failed'',
                                                r_error := Some ''decode error''\<rparr>)))
        example_polling)
     = [ClearIntervalCall (Some 1), ShowToast ''decode error'' ''error'' 5000]
   \<and> live (video_timers (snd (video_step example_fmt
        (StatusReplied ''J1'' (HttpJson (empty_response\<lparr>r_status := Some ''failed'',
                                                r_error := Some ''decode error''\<rparr>)))
        example_polling))) = []
   \<and> fst (video_run example_fmt [TimerFired 1, TimerFired 1]
        (snd (video_step example_fmt
           (StatusReplied ''J1'' (HttpJson (empty_response\<lparr>r_status := Some ''failed'',
                                                   r_error := Some ''decode error''\<rparr>)))
           example_polling))) = []
   \<and> FetchRequest ''/api/video/status/J1'' ''GET'' []
       \<notin> set (fst (video_run example_fmt
            [TabResizeClicked, ResizeClicked (Some 25) None None True,
             ResizeReplied (HttpJson (empty_response\<lparr>r_job_id := Some ''J2''\<rparr>)),
             TimerFired 2]
            (snd (video_step example_fmt
               (StatusReplied ''J1'' (HttpJson (empty_response\<lparr>r_status := Some ''failed'',
                                                       r_error := Some ''decode error''\<rparr>)))
               example_polling))))"
  using failed_reply_effects [OF example_polling_inv,
      where r = "empty_response\<lparr>r_status := Some ''failed'', r_error := Some ''decode error''\<rparr>"
        and fmt = example_fmt and evs = "[TimerFired 1, TimerFired 1]"
        and j = "''J1''"
        and evs' = "[TabResizeClicked, ResizeClicked (Some 25) None None True,
             ResizeReplied (HttpJson (empty_response\<lparr>r_job_id := Some ''J2''\<rparr>)),
             TimerFired 2]"]
    example_polling_inv
  by (simp add: example_polling_value video_unfold)

text \<open>
  C6. The claim fails on the code in this session. Job \<open>J1\<close> is being polled and its first
  status request is still unanswered when interval 1 fires and sends a second one. Both are
  answered with the status failed and the description \<open>decode error\<close>. The rest of
  \<open>checkVideoStatus\<close> runs once per reply and does not look whether polling has already
  stopped: two error toasts are shown for the one job.
\<close>

theorem two_failed_replies_two_toasts:
  "fst (video_run example_fmt
       [TimerFired 1,
        StatusReplied ''J1'' (HttpJson (empty_response\<lparr>r_status := Some ''failed'',
                                                        r_error := Some ''decode error''\<rparr>)),
        StatusReplied ''J1'' (HttpJson (empty_response\<lparr>r_status := Some ''failed'',
                                                        r_error := Some ''decode error''\<rparr>))]
       example_polling)
     = [FetchRequest ''/api/video/status/J1'' ''GET'' [],
        ClearIntervalCall (Some 1), ShowToast ''decode error'' ''error'' 5000,
        ClearIntervalCall None, ShowToast ''decode error'' ''error'' 5000]
   \<and> length (filter is_toast (fst (video_run example_fmt
       [TimerFired 1,
        StatusReplied ''J1'' (HttpJson (empty_response\<lparr>r_status := Some ''failed'',
                                                        r_error := Some ''decode error''\<rparr>)),
        StatusReplied ''J1'' (HttpJson (empty_response\<lparr>r_status := Some ''failed'',
                                                        r_error := Some ''decode error''\<rparr>))]
       example_polling))) = 2"
  by (simp add: example_polling_value video_unfold)



text \<open>
  C4. For every file whose type is outside the allow-list of its kind or whose size exceeds
  the maximum of its kind, \<open>handlePhotoFile\<close> and \<open>handleVideoFile\<close> show one error toast
  that names the reason and return with the page unchanged; no upload and no other request
  is issued.
\<close>

theorem invalid_file_rejected_locally:
  "(\<not> (file_type f \<in> {''image/jpeg'', ''image/png'', ''image/bmp'', ''image/gif'',
                       ''image/tiff'', ''image/webp''}
        \<and> file_size f \<le> 50 * 1024 * 1024) \<longrightarrow>
      handlePhotoFile fmt f q =
        ([ShowToast
            (if file_type f \<in> {''image/jpeg'', ''image/png'', ''image/bmp'', ''image/gif'',
                                ''image/tiff'', ''image/webp''}
             then ''File size exceeds 50MB limit. Your file is '' @ fmt (file_size f) @ ''.''
             else ''Invalid file type. Please upload a JPG, PNG, BMP, GIF, TIFF, or WebP image.'')
            ''error'' 5000], q)
      \<and> list_all (\<lambda>x. \<not> is_network x) (fst (handlePhotoFile fmt f q)))
   \<and> (\<not> (file_type f \<in> {''video/mp4'', ''video/avi'', ''video/quicktime'',
                         ''video/x-matroska'', ''video/webm'', ''video/x-flv'',
                         ''video/x-ms-wmv''}
        \<and> file_size f \<le> 500 * 1024 * 1024) \<longrightarrow>
      handleVideoFile fmt f p =
        ([ShowToast
            (if file_type f \<in> {''video/mp4'', ''video/avi'', ''video/quicktime'',
                                ''video/x-matroska'', ''video/webm'', ''video/x-flv'',
                                ''video/x-ms-wmv''}
             then ''File size exceeds 500MB limit. Your file is '' @ fmt (file_size f) @ ''.''
             else ''Invalid file type. Please upload an MP4, AVI, MOV, MKV, WebM, FLV, or WMV video.'')
            ''error'' 5000], p)
      \<and> list_all (\<lambda>x. \<not> is_network x) (fst (handleVideoFile fmt f p)))"
  by (simp add: handlePhotoFile_def handleVideoFile_def validateImageFile_def
        validateVideoFile_def Let_def showToast_def template_text_def not_le)

theorem invalid_file_rejected_locally_witness:
  "handlePhotoFile example_fmt example_text example_uploaded =
     ([ShowToast ''Invalid file type. Please upload a JPG, PNG, BMP, GIF, TIFF, or WebP image.''
         ''error'' 5000], example_uploaded)
   \<and> handleVideoFile example_fmt example_text example_polling =
     ([ShowToast ''Invalid file type. Please upload an MP4, AVI, MOV, MKV, WebM, FLV, or WMV video.''
         ''error'' 5000], example_polling)
   \<and> fst (handlePhotoFile example_fmt (example_photo\<lparr>file_size := 52428801\<rparr>) example_uploaded) =
     [ShowToast ''File size exceeds 50MB limit. Your file is 52428801 Bytes.'' ''error'' 5000]"
  using invalid_file_rejected_locally [of example_text example_fmt example_uploaded example_polling]
    invalid_file_rejected_locally [of "example_photo\<lparr>file_size := 52428801\<rparr>" example_fmt
      example_uploaded example_polling]
  by (simp add: example_text_def example_photo_def example_fmt_def dec.simps)

lemma valid_file_uploaded:
  "fst (handlePhotoFile example_fmt example_photo (photo_start example_photo_markup)) =
     [ReadAsDataURL example_photo, ShowToast ''Uploading photo...'' ''info'' 3000,
      UploadRequest ''/api/photo/upload'' example_photo]
   \<and> fst (handleVideoFile example_fmt example_video (video_start example_video_markup 1)) =
     [ReadAsDataURL example_video, ShowToast ''Uploading video...'' ''info'' 3000,
      UploadRequest ''/api/video/upload'' example_video]"
  by (simp add: handlePhotoFile_def handleVideoFile_def validateImageFile_def
        validateVideoFile_def Let_def showToast_def uploadFile_def example_photo_def
        example_video_def)










lemma resetPhotoEditor_jobId: "photo_jobId (snd (resetPhotoEditor q)) = None"
  by (simp add: resetPhotoEditor_def resetEffects_def Let_def)

lemma photo_step_jobId:
  "photo_jobId (snd (photo_step fmt ev q)) = photo_jobId q
   \<or> photo_jobId (snd (photo_step fmt ev q)) = None
   \<or> is_process_success ev"
proof (cases ev)
  case (PhotoChosen f)
  then show ?thesis by (simp add: photo_step_def handlePhotoFile_def Let_def)
next
  case (PhotoUploadSettled x)
  then show ?thesis
    by (auto simp add: photo_step_def handlePhotoFile_uploaded_def Let_def split_beta
          resetPhotoEditor_jobId split: sum.splits option.splits)
next
  case PhotoRemoveClicked
  then show ?thesis by (simp add: photo_step_def resetPhotoEditor_jobId)
next
  case ResetEffectsClicked
  then show ?thesis by (simp add: photo_step_def resetEffects_def)
next
  case ProcessClicked
  then show ?thesis by (simp add: photo_step_def processPhoto_def Let_def)
next
  case (ProcessReplied reply)
  then show ?thesis
    by (simp add: photo_step_def processPhoto_replied_def Let_def split_beta split: sum.splits)
next
  case (PhotoDownloadClicked now)
  then show ?thesis by (simp add: photo_step_def downloadPhoto_def)
qed (simp_all add: photo_step_def)

lemma photo_run_jobId:
  "truthy_string (photo_jobId (snd (photo_run fmt evs q)))
   \<Longrightarrow> truthy_string (photo_jobId q) \<or> list_ex is_process_success evs"
proof (induction evs arbitrary: q)
  case Nil
  then show ?case by simp
next
  case (Cons ev evs)
  from Cons.prems have "truthy_string (photo_jobId (snd (photo_run fmt evs (snd (photo_step fmt ev q)))))"
    by (simp add: split_beta Let_def)
  from Cons.IH[OF this] photo_step_jobId[of fmt ev q] show ?case
    by (auto simp add: truthy_string_def)
qed

lemma resetVideoEditor_download: "downloadSection_hidden (snd (resetVideoEditor p))"
  by (simp add: resetVideoEditor_def Let_def split_beta)

lemma startStatusPolling_download:
  "downloadSection_hidden (snd (startStatusPolling p)) = downloadSection_hidden p"
  by (simp add: startStatusPolling_def Let_def split_beta setInterval_def)

lemma video_step_download_shown:
  assumes "\<not> downloadSection_hidden (snd (video_step fmt ev p))"
  shows "\<not> downloadSection_hidden p \<or> is_completed_reply ev"
proof (cases ev)
  case (FileChosen f)
  with assms show ?thesis by (simp add: video_step_def handleVideoFile_def Let_def split: if_splits)
next
  case (UploadSettled x)
  with assms show ?thesis
    by (auto simp add: video_step_def handleVideoFile_uploaded_def Let_def split_beta
          resetVideoEditor_download split: sum.splits option.splits)
next
  case RemoveClicked
  with assms show ?thesis by (simp add: video_step_def resetVideoEditor_download)
next
  case UpscaleClicked
  with assms show ?thesis by (simp add: video_step_def upscaleVideo_def split: if_splits)
next
  case (UpscaleReplied reply)
  with assms show ?thesis
    by (simp add: video_step_def upscaleVideo_replied_def Let_def split_beta
          startStatusPolling_download split: sum.splits)
next
  case (ResizeClicked t w h m)
  with assms show ?thesis by (simp add: video_step_def resizeVideo_def Let_def split: if_splits)
next
  case (ResizeReplied reply)
  with assms show ?thesis
    by (simp add: video_step_def resizeVideo_replied_def Let_def split_beta
          startStatusPolling_download split: sum.splits)
next
  case (TimerFired t)
  with assms show ?thesis
    by (simp add: video_step_def split: option.splits callback.splits prod.splits)
next
  case (StatusReplied job reply)
  with assms show ?thesis
    by (cases reply)
       (auto simp add: video_step_def checkVideoStatus_replied_def apiRequest_settle_def Let_def
          get_status_def split: if_splits js_error.splits)
next
  case (DownloadClicked now)
  with assms show ?thesis by (simp add: video_step_def downloadVideo_def split: if_splits)
next
  case BeforeUnload
  with assms show ?thesis by (simp add: video_step_def video_beforeunload_def split: if_splits)
qed (use assms in \<open>simp_all add: video_step_def\<close>)

lemma video_run_download_shown:
  "\<not> downloadSection_hidden (snd (video_run fmt evs p))
   \<Longrightarrow> \<not> downloadSection_hidden p \<or> list_ex is_completed_reply evs"
proof (induction evs arbitrary: p)
  case Nil
  then show ?case by simp
next
  case (Cons ev evs)
  from Cons.prems have "\<not> downloadSection_hidden (snd (video_run fmt evs (snd (video_step fmt ev p))))"
    by (simp add: split_beta Let_def)
  from Cons.IH[OF this] video_step_download_shown[of fmt ev p] show ?case by auto
qed

text \<open>
  The guard of the two download functions is the stored job handle and nothing else. The
  photo editor stores a handle only when the reply to its processing request has arrived
  successfully. In the video editor the script shows the download section only in the branch
  for the status completed, so on a markup in which the section starts hidden it is visible
  only after some reply reported completed.
\<close>

lemma download_guard:
  "(\<not> truthy_string (jobId p) \<longrightarrow>
      downloadVideo now p = ([ShowToast ''No processed video available'' ''error'' 5000], p))
   \<and> (truthy_string (jobId p) \<longrightarrow>
      downloadVideo now p =
        ([DownloadClick (API_BASE_URL @ ''/api/video/download/'' @ template_text (jobId p))
            (''processed_video_'' @ dec now @ ''.mp4''),
          ShowToast ''Download started!'' ''success'' 5000], p))
   \<and> (\<not> truthy_string (photo_jobId q) \<longrightarrow>
      downloadPhoto now q = ([ShowToast ''No processed photo available'' ''error'' 5000], q))
   \<and> (truthy_string (photo_jobId q) \<longrightarrow>
      downloadPhoto now q =
        ([DownloadClick (API_BASE_URL @ ''/api/photo/download/'' @ template_text (photo_jobId q))
            (''edited_photo_'' @ dec now @ ''.jpg''),
          ShowToast ''Download started!'' ''success'' 5000], q))
   \<and> (truthy_string (photo_jobId (snd (photo_run fmt evs (photo_start pmk)))) \<longrightarrow>
        list_ex is_process_success evs)
   \<and> (mk_downloadSection_hidden mk
        \<and> \<not> downloadSection_hidden (snd (video_run fmt vevs (video_start mk n))) \<longrightarrow>
        list_ex is_completed_reply vevs)"
proof -
  have a: "truthy_string (photo_jobId (snd (photo_run fmt evs (photo_start pmk)))) \<longrightarrow>
        list_ex is_process_success evs"
    using photo_run_jobId[of fmt evs "photo_start pmk"]
    by (auto simp add: photo_start_def truthy_string_def)
  have b: "mk_downloadSection_hidden mk
        \<and> \<not> downloadSection_hidden (snd (video_run fmt vevs (video_start mk n))) \<longrightarrow>
        list_ex is_completed_reply vevs"
    using video_run_download_shown[of fmt vevs "video_start mk n"]
    by (auto simp add: video_start_def)
  from a b show ?thesis
    by (simp add: downloadVideo_def downloadPhoto_def showToast_def)
qed

text \<open>
  C7. The claim fails on the code in this session, in which every button the user clicks is
  visible and enabled. Job \<open>J1\<close> is being polled and its first status request is still
  unanswered when the user opens the resize tab and submits a resize, which is answered with
  \<open>J2\<close>. Then the reply to the request for \<open>J1\<close> arrives and reports completed: the handler
  shows the download section, while the stored job handle is \<open>J2\<close>, for which no reply has
  arrived. The click on the download button passes the guard of \<open>downloadVideo\<close> and builds
  and clicks the link for \<open>J2\<close>; no error is shown.
\<close>

theorem stale_reply_download_unfinished:
  "downloadSection_hidden (snd (video_run example_fmt
       [TabResizeClicked, ResizeClicked (Some 25) None None True,
        ResizeReplied (HttpJson (empty_response\<lparr>r_job_id := Some ''J2''\<rparr>)),
        StatusReplied ''J1'' (HttpJson (empty_response\<lparr>r_status := Some ''completed''\<rparr>))]
       example_polling)) = False
   \<and> jobId (snd (video_run example_fmt
       [TabResizeClicked, ResizeClicked (Some 25) None None True,
        ResizeReplied (HttpJson (empty_response\<lparr>r_job_id := Some ''J2''\<rparr>)),
        StatusReplied ''J1'' (HttpJson (empty_response\<lparr>r_status := Some ''completed''\<rparr>))]
       example_polling)) = Some ''J2''
   \<and> fst (video_run example_fmt
       [TabResizeClicked, ResizeClicked (Some 25) None None True,
        ResizeReplied (HttpJson (empty_response\<lparr>r_job_id := Some ''J2''\<rparr>)),
        StatusReplied ''J1'' (HttpJson (empty_response\<lparr>r_status := Some ''completed''\<rparr>)),
        DownloadClicked 1700000000000]
       example_polling)
     = [FetchRequest ''/api/video/resize'' ''POST''
          [(''upload_id'', JStr ''U1''), (''resize_type'', JStr ''filesize''),
           (''target_mb'', JNum 25)],
        ClearIntervalCall (Some 1), SetIntervalCall CheckVideoStatus 2000 2,
        FetchRequest ''/api/video/status/J2'' ''GET'' [],
        ShowToast ''Video resizing started'' ''info'' 5000,
        ClearIntervalCall (Some 2),
        ShowToast ''Video processed successfully!'' ''success'' 5000,
        DownloadClick ''https://localhost:5000/api/video/download/J2''
          ''processed_video_1700000000000.mp4'',
        ShowToast ''Download started!'' ''success'' 5000]"
  by (simp add: example_polling_value video_unfold API_BASE_URL_def dec.simps)

end
